theory Spec2Isabelle
  imports Complex_Main "HOL-Library.Char_ord" "HOL-Library.List_Lexorder"
begin

section \<open>Python strings\<close>

text \<open>
  A Python \<open>str\<close> is modelled as a \<open>string\<close> whose characters are the code points
  below 256. \<open>isspace\<close>, \<open>strip\<close> and \<open>lower\<close> follow \<open>str.isspace\<close>, \<open>str.strip()\<close>
  and \<open>str.lower()\<close> on that range; \<open>substring_in k s\<close> is the test \<open>k in s\<close>.
\<close>

definition isspace :: "char \<Rightarrow> bool" where
  "isspace c = ((of_char c :: nat) \<in> {9, 10, 11, 12, 13, 28, 29, 30, 31, 32, 133, 160})"

definition strip :: "string \<Rightarrow> string" where
  "strip s = rev (dropWhile isspace (rev (dropWhile isspace s)))"

definition lower_char :: "char \<Rightarrow> char" where
  "lower_char c =
     (let n = (of_char c :: nat)
      in if (65 \<le> n \<and> n \<le> 90) \<or> (192 \<le> n \<and> n \<le> 222 \<and> n \<noteq> 215)
         then char_of (n + 32) else c)"

definition lower :: "string \<Rightarrow> string" where
  "lower s = map lower_char s"

fun starts_with :: "string \<Rightarrow> string \<Rightarrow> bool" where
  "starts_with [] s = True"
| "starts_with (k # ks) [] = False"
| "starts_with (k # ks) (c # cs) = (k = c \<and> starts_with ks cs)"

fun substring_in :: "string \<Rightarrow> string \<Rightarrow> bool" where
  "substring_in k [] = (k = [])"
| "substring_in k (c # cs) = (starts_with k (c # cs) \<or> substring_in k cs)"

definition replace_char :: "char \<Rightarrow> char \<Rightarrow> string \<Rightarrow> string" where
  "replace_char a b s = map (\<lambda>c. if c = a then b else c) s"

section \<open>Python floats\<close>

text \<open>
  A Python \<open>float\<close> is an IEEE 754 double. A finite double is given by its exact value,
  a rational number; \<open>NegZero\<close> is \<open>-0.0\<close>. \<open>round_double\<close> rounds an exact value to
  the nearest double, ties to the even significand, with gradual underflow below
  \<open>2 ^ -1022\<close> and overflow to infinity. \<open>fl_add\<close> and \<open>fl_sub\<close> are \<open>+\<close> and
  \<open>-\<close>, \<open>fl_div_pos x y\<close> is \<open>x / y\<close> for a finite divisor \<open>y > 0\<close> given by its
  value, \<open>fl_less\<close> and \<open>fl_le\<close> are \<open><\<close> and \<open><=\<close> (false when an operand is
  NaN), and \<open>double_literal q\<close> is the float that the decimal literal \<open>q\<close> denotes.
\<close>

datatype double = Finite rat | NegZero | PosInf | NegInf | NaN

definition pow2 :: "int \<Rightarrow> rat" where
  "pow2 e = (if e \<ge> 0 then 2 ^ nat e else 1 / 2 ^ nat (- e))"

function ilog2 :: "int \<Rightarrow> int" where
  "ilog2 n = (if n < 2 then 0 else 1 + ilog2 (n div 2))"
  by pat_completeness auto
termination
  by (relation "measure nat") auto

text \<open>The exponent \<open>e\<close> with \<open>2 ^ e \<le> q < 2 ^ (e + 1)\<close>, for \<open>q > 0\<close>.\<close>

definition floor_log2 :: "rat \<Rightarrow> int" where
  "floor_log2 q =
     (let (a, b) = quotient_of q;
          e = ilog2 a - ilog2 b
      in if pow2 e \<le> q then e else e - 1)"

definition round_half_even :: "rat \<Rightarrow> int" where
  "round_half_even x =
     (let f = \<lfloor>x\<rfloor>; r = x - of_int f
      in if r < 1 / 2 then f else if 1 / 2 < r then f + 1
         else if even f then f else f + 1)"

definition round_double :: "rat \<Rightarrow> double" where
  "round_double q =
     (if q = 0 then Finite 0
      else
        let a = \<bar>q\<bar>;
            e = max (floor_log2 a) (- 1022)
        in if 1024 \<le> e then (if q < 0 then NegInf else PosInf)
           else
             let ulp = pow2 (e - 52);
                 m = round_half_even (a / ulp)
             in if e = 1023 \<and> m = 9007199254740992
                then (if q < 0 then NegInf else PosInf)
                else if m = 0 then (if q < 0 then NegZero else Finite 0)
                else Finite ((if q < 0 then - 1 else 1) * of_int m * ulp))"

definition double_literal :: "rat \<Rightarrow> double" where
  "double_literal q = round_double q"

fun fl_neg :: "double \<Rightarrow> double" where
  "fl_neg (Finite q) = (if q = 0 then NegZero else Finite (- q))"
| "fl_neg NegZero = Finite 0"
| "fl_neg PosInf = NegInf"
| "fl_neg NegInf = PosInf"
| "fl_neg NaN = NaN"

fun fl_add :: "double \<Rightarrow> double \<Rightarrow> double" where
  "fl_add NaN b = NaN"
| "fl_add a NaN = NaN"
| "fl_add PosInf NegInf = NaN"
| "fl_add NegInf PosInf = NaN"
| "fl_add PosInf b = PosInf"
| "fl_add a PosInf = PosInf"
| "fl_add NegInf b = NegInf"
| "fl_add a NegInf = NegInf"
| "fl_add NegZero NegZero = NegZero"
| "fl_add NegZero (Finite q) = Finite q"
| "fl_add (Finite p) NegZero = Finite p"
| "fl_add (Finite p) (Finite q) = round_double (p + q)"

definition fl_sub :: "double \<Rightarrow> double \<Rightarrow> double" where
  "fl_sub a b = fl_add a (fl_neg b)"

fun fl_div_pos :: "double \<Rightarrow> rat \<Rightarrow> double" where
  "fl_div_pos (Finite q) y = round_double (q / y)"
| "fl_div_pos d y = d"

fun rank :: "double \<Rightarrow> int \<times> rat" where
  "rank (Finite q) = (0, q)"
| "rank NegZero = (0, 0)"
| "rank PosInf = (1, 0)"
| "rank NegInf = (- 1, 0)"
| "rank NaN = (0, 0)"

definition fl_less :: "double \<Rightarrow> double \<Rightarrow> bool" where
  "fl_less a b =
     (a \<noteq> NaN \<and> b \<noteq> NaN
      \<and> (fst (rank a) < fst (rank b)
          \<or> fst (rank a) = fst (rank b) \<and> snd (rank a) < snd (rank b)))"

definition fl_le :: "double \<Rightarrow> double \<Rightarrow> bool" where
  "fl_le a b =
     (a \<noteq> NaN \<and> b \<noteq> NaN
      \<and> (fst (rank a) < fst (rank b)
          \<or> fst (rank a) = fst (rank b) \<and> snd (rank a) \<le> snd (rank b)))"

text \<open>An exception is an instance of Python's \<open>Exception\<close>; \<open>message\<close> is its
  \<open>str\<close>.\<close>

datatype py_exception = Exception (message: string)

section \<open>Requirement extraction (\<open>sessions/session_manager.py\<close>)\<close>

record extraction_results =
  required_technical_skills :: "string list"
  preferred_skills :: "string list"
  seniority_indicators :: "string list"
  responsibility_categories :: "string list"
  technology_stack :: "string list"
  soft_skills :: "string list"
  interview_focus_areas :: "string list"
  complexity_level :: string

definition get_default_extraction_template :: extraction_results where
  "get_default_extraction_template =
     \<lparr> required_technical_skills = [''Problem Solving'', ''Programming'', ''System Design''],
       preferred_skills = [''Communication'', ''Teamwork''],
       seniority_indicators = [''mid-level''],
       responsibility_categories = [''coding'', ''collaboration''],
       technology_stack = [''General Programming''],
       soft_skills = [''Communication''],
       interview_focus_areas = [''coding_problems'', ''technical_knowledge''],
       complexity_level = ''intermediate'' \<rparr>"

text \<open>The keyword tables are dictionaries; a Python dictionary is iterated in the order
  its keys were written, so each is an association list in that order.\<close>

definition technical_keywords :: "(string \<times> string list) list" where
  "technical_keywords =
     [(''programming_languages'',
         [''python'', ''javascript'', ''java'', ''c++'', ''c#'', ''go'', ''rust'',
          ''typescript'', ''php'', ''ruby'']),
      (''frameworks'',
         [''react'', ''angular'', ''vue'', ''django'', ''flask'', ''spring'', ''express'',
          ''laravel'', ''rails'']),
      (''databases'',
         [''sql'', ''mysql'', ''postgresql'', ''mongodb'', ''redis'', ''elasticsearch'',
          ''dynamodb'']),
      (''cloud_platforms'',
         [''aws'', ''azure'', ''gcp'', ''google cloud'', ''docker'', ''kubernetes'',
          ''terraform'']),
      (''tools'',
         [''git'', ''jenkins'', ''ci/cd'', ''microservices'', ''api'', ''rest'', ''graphql''])]"

definition seniority_indicator_table :: "(string \<times> string list) list" where
  "seniority_indicator_table =
     [(''senior'',
         [''senior'', ''lead'', ''principal'', ''architect'', ''5+ years'', ''mentor'',
          ''leadership'']),
      (''mid'', [''mid-level'', ''3-5 years'', ''experienced'', ''solid experience'']),
      (''junior'',
         [''junior'', ''entry-level'', ''0-2 years'', ''new graduate'', ''recent graduate''])]"

definition responsibility_keywords :: "(string \<times> string list) list" where
  "responsibility_keywords =
     [(''system_design'',
         [''system design'', ''architecture'', ''scalable'', ''distributed'', ''microservices'']),
      (''coding'',
         [''coding'', ''programming'', ''development'', ''implementation'', ''algorithms'']),
      (''collaboration'', [''collaborate'', ''team'', ''cross-functional'', ''communication'']),
      (''leadership'', [''mentor'', ''lead'', ''guide'', ''technical leadership''])]"

text \<open>The seniority loop: the first level one of whose indicators occurs in the text wins
  (\<open>break\<close>); \<open>mid\<close> with no indicators is the default.\<close>

fun detect_seniority :: "string \<Rightarrow> (string \<times> string list) list \<Rightarrow> string \<times> string list" where
  "detect_seniority jd_lower [] = (''mid'', [])"
| "detect_seniority jd_lower ((level, indicators) # rest) =
     (if list_ex (\<lambda>indicator. substring_in indicator jd_lower) indicators
      then (level, filter (\<lambda>indicator. substring_in indicator jd_lower) indicators)
      else detect_seniority jd_lower rest)"

definition derive_focus_areas :: "string list \<Rightarrow> string list \<Rightarrow> string list" where
  "derive_focus_areas stack categories =
     (let focus_areas =
            (if stack \<noteq> [] then [''technical_knowledge''] else [])
          @ (if ''coding'' \<in> set categories then [''coding_problems''] else [])
          @ (if ''system_design'' \<in> set categories then [''system_design''] else [])
          @ (if ''leadership'' \<in> set categories then [''behavioral_leadership''] else [])
      in if focus_areas = [] then [''general_technical''] else focus_areas)"

definition perform_context_engineering :: "string \<Rightarrow> extraction_results" where
  "perform_context_engineering job_description =
     (if strip job_description = [] then get_default_extraction_template
      else
        let jd_lower = lower job_description;
            all_skills =
              concat (map (\<lambda>(category, keywords).
                             filter (\<lambda>skill. substring_in skill jd_lower) keywords)
                          technical_keywords);
            (detected_seniority, indicators) = detect_seniority jd_lower seniority_indicator_table;
            categories =
              map fst (filter (\<lambda>(category, keywords).
                                 list_ex (\<lambda>keyword. substring_in keyword jd_lower) keywords)
                              responsibility_keywords)
        in \<lparr> required_technical_skills = take 6 all_skills,
             preferred_skills = drop 6 all_skills,
             seniority_indicators = indicators,
             responsibility_categories = categories,
             technology_stack = all_skills,
             soft_skills = [],
             interview_focus_areas = derive_focus_areas all_skills categories,
             complexity_level =
               (if detected_seniority = ''senior'' \<or> length categories > 3 then ''advanced''
                else if detected_seniority = ''junior'' then ''beginner''
                else ''intermediate'') \<rparr>)"

section \<open>Plan building (\<open>sessions/session_manager.py\<close>)\<close>

record experience_data =
  years :: int
  field :: string
  current_role :: string
  company_size :: string
  previous_interviews :: string
  self_assessment :: "(string \<times> int) list"
  proficiency_areas :: "string list"
  experience_level :: string

record job_data =
  company :: string
  role :: string
  description :: string
  timeline :: string
  description_length :: nat
  collected_at :: string

record session_phase =
  phase :: string
  duration_minutes :: nat
  question_count :: nat
  difficulty :: string

record personalization_factors =
  experience_years :: int
  field_expertise :: string
  target_role_complexity :: string
  self_assessed_confidence :: double

record adaptive_parameters =
  initial_difficulty :: string
  adjustment_threshold :: double
  max_difficulty_jumps :: nat
  personalization_factors :: personalization_factors

record interview_plan =
  session_structure :: "session_phase list"
  question_categories :: "string set"
  difficulty_progression :: "(string \<times> string) list"
  focus_areas :: "string list"
  estimated_duration :: nat
  adaptive_parameters :: adaptive_parameters

definition categorize_experience_level :: "int \<Rightarrow> string" where
  "categorize_experience_level n =
     (if n \<le> 2 then ''junior'' else if n \<le> 5 then ''mid'' else ''senior'')"

text \<open>
  The extraction handed to the two functions below is the dictionary built by
  \<open>perform_context_engineering\<close> or the default template; both set every key, so the
  defaults of \<open>extracted_skills.get('complexity_level', 'intermediate')\<close> and
  \<open>extracted_skills.get('interview_focus_areas', ['general_technical'])\<close> are never taken
  and the record fields are read directly.
\<close>

definition calculate_initial_difficulty :: "experience_data \<Rightarrow> extraction_results \<Rightarrow> string" where
  "calculate_initial_difficulty experience extracted_skills =
     (let user_level = experience_level experience;
          job_complexity = complexity_level extracted_skills
      in if user_level = ''senior'' \<and> job_complexity = ''advanced'' then ''advanced''
         else if user_level = ''junior'' \<or> job_complexity = ''beginner'' then ''beginner''
         else ''intermediate'')"

definition seniority_levels :: "(string \<times> nat) list" where
  "seniority_levels = [(''junior'', 1), (''mid'', 2), (''senior'', 3)]"

definition seniority_score :: "string \<Rightarrow> nat" where
  "seniority_score level = (case map_of seniority_levels level of None \<Rightarrow> 2 | Some n \<Rightarrow> n)"

definition match_difficulty_to_gap :: "string \<Rightarrow> string \<Rightarrow> string" where
  "match_difficulty_to_gap user_seniority job_seniority =
     (let user_score = seniority_score user_seniority;
          job_score = seniority_score job_seniority
      in if job_score > user_score then job_seniority else user_seniority)"

text \<open>
  \<open>sum(self_assessment.values()) / len(self_assessment)\<close> divides two integers, which
  gives the double nearest to the quotient (the answers are on the 1-5 scale, far from
  the size at which Python refuses the conversion); the result is then divided by \<open>5.0\<close>.
\<close>

definition calculate_confidence_score :: "experience_data \<Rightarrow> double" where
  "calculate_confidence_score experience =
     (if self_assessment experience = [] then double_literal (1 / 2)
      else fl_div_pos
             (round_double (of_int (sum_list (map snd (self_assessment experience)))
                              / of_nat (length (self_assessment experience))))
             5)"

definition category_mapping :: "(string \<times> string list) list" where
  "category_mapping =
     [(''coding_problems'', [''algorithms'', ''data_structures'', ''problem_solving'']),
      (''system_design'', [''scalability'', ''architecture'', ''trade_offs'']),
      (''technical_knowledge'', [''concepts'', ''best_practices'', ''tools'']),
      (''behavioral_leadership'', [''leadership'', ''teamwork'', ''communication'']),
      (''general_technical'', [''algorithms'', ''concepts'', ''problem_solving''])]"

text \<open>\<open>list(set(categories))\<close> has no fixed order, so the result is the set.\<close>

definition map_focus_to_question_categories :: "string list \<Rightarrow> string set" where
  "map_focus_to_question_categories focus =
     set (concat (map (\<lambda>f. case map_of category_mapping f of
                              None \<Rightarrow> [''general''] | Some cs \<Rightarrow> cs) focus))"

definition build_session_phases :: "string \<Rightarrow> string \<Rightarrow> string list \<Rightarrow> session_phase list" where
  "build_session_phases user_seniority job_seniority focus =
       (if ''coding_problems'' \<in> set focus
        then [\<lparr> phase = ''coding_assessment'', duration_minutes = 30, question_count = 2,
                difficulty = match_difficulty_to_gap user_seniority job_seniority \<rparr>]
        else [])
     @ (if ''system_design'' \<in> set focus
        then [\<lparr> phase = ''system_design'', duration_minutes = 25, question_count = 1,
                difficulty = job_seniority \<rparr>]
        else [])
     @ (if ''technical_knowledge'' \<in> set focus
        then [\<lparr> phase = ''technical_concepts'', duration_minutes = 15, question_count = 3,
                difficulty = user_seniority \<rparr>]
        else [])
     @ (if ''behavioral_leadership'' \<in> set focus \<or> user_seniority \<in> set [''mid'', ''senior'']
        then [\<lparr> phase = ''behavioral'', duration_minutes = 10, question_count = 2,
                difficulty = user_seniority \<rparr>]
        else [])"

definition create_adaptive_interview_plan ::
  "experience_data \<Rightarrow> job_data \<Rightarrow> extraction_results \<Rightarrow> interview_plan" where
  "create_adaptive_interview_plan experience job extracted_skills =
     (let user_seniority = experience_level experience;
          job_seniority = complexity_level extracted_skills;
          focus = interview_focus_areas extracted_skills;
          session_phases = build_session_phases user_seniority job_seniority focus
      in \<lparr> session_structure = session_phases,
           question_categories = map_focus_to_question_categories focus,
           difficulty_progression = [],
           focus_areas = focus,
           estimated_duration = sum_list (map duration_minutes session_phases),
           adaptive_parameters =
             \<lparr> initial_difficulty = calculate_initial_difficulty experience extracted_skills,
               adjustment_threshold = double_literal (3 / 10),
               max_difficulty_jumps = 1,
               personalization_factors =
                 \<lparr> experience_years = years experience,
                   field_expertise = field experience,
                   target_role_complexity = job_seniority,
                   self_assessed_confidence = calculate_confidence_score experience \<rparr> \<rparr> \<rparr>)"

definition get_skill_areas_for_field :: "string \<Rightarrow> string list" where
  "get_skill_areas_for_field f =
     (case map_of
        [(''front-end'',
            [''JavaScript/TypeScript'', ''React/Vue/Angular'', ''CSS/Styling'',
             ''Web Performance'', ''Testing'']),
         (''back-end'',
            [''System Design'', ''Database Design'', ''API Development'', ''Scalability'',
             ''Security'']),
         (''full-stack'',
            [''Frontend Development'', ''Backend Development'', ''Database Design'',
             ''System Architecture'', ''DevOps'']),
         (''data science'',
            [''Machine Learning'', ''Statistics'', ''Python/R'', ''Data Processing'',
             ''Visualization'']),
         (''devops'',
            [''Infrastructure'', ''CI/CD'', ''Monitoring'', ''Cloud Platforms'', ''Automation'']),
         (''mobile'',
            [''iOS/Android Development'', ''Mobile UI/UX'', ''Performance'', ''Testing'',
             ''App Store'']),
         (''qa'',
            [''Test Automation'', ''Manual Testing'', ''Performance Testing'',
             ''Security Testing'', ''Tools''])] f
      of Some skills \<Rightarrow> skills
       | None \<Rightarrow>
           [''Problem Solving'', ''Algorithms'', ''Data Structures'', ''System Design'',
            ''Communication''])"

section \<open>Session records\<close>

text \<open>
  A session is a dictionary with a fixed set of keys, some of them absent until a step
  sets them. \<open>timestamp\<close> and \<open>performance_analysis\<close> are the two keys that
  \<open>store_session_record\<close> reads and only \<open>update_session_status\<close> can add.
  A reading of \<open>datetime.now()\<close> is given in the two formats the code prints it in;
  one operation uses one reading.
\<close>

record clock_reading =
  isoformat :: string
  compact :: string

record user_profile =
  experience :: "experience_data option"
  target_job :: "job_data option"
  difficulty_level :: "string option"
  user_id :: "string option"

record agent_interaction =
  interaction_timestamp :: string
  agent :: string
  interaction_type :: string
  interaction_payload :: "(string \<times> string) list"

record performance_analysis =
  category_scores :: "(string \<times> double) list"
  overall_score :: "double option"

record session_data =
  session_id :: string
  created_at :: string
  status :: string
  user_profile :: user_profile
  extracted_requirements :: "extraction_results option"
  interview_plan :: "interview_plan option"
  agent_interactions :: "agent_interaction list"
  error :: "string option"
  completed_at :: "string option"
  last_updated :: "string option"
  timestamp :: "string option"
  performance_analysis :: "performance_analysis option"

section \<open>Memory bank (\<open>memory/memory_bank.py\<close>)\<close>

text \<open>
  The SQLite tables are lists of rows in insertion order. Columns holding a JSON text hold
  the value that was serialised. Only the three tables the operations below touch are
  kept; \<open>next_metric_id\<close> is the \<open>AUTOINCREMENT\<close> counter of \<open>performance_metrics\<close>.
  Failures of the database itself are not modelled, so the \<open>except\<close> branches are
  reached only where the Python raises on its own (a missing key, a duplicate primary
  key, an operand that is not a float, a method of \<open>None\<close>). A text column holds a
  text, or \<open>NULL\<close> where the schema allows it.
\<close>

text \<open>
  What Python reads back from the \<open>REAL\<close> column \<open>metric_value\<close>: \<open>None\<close> for
  \<open>NULL\<close>, a \<open>float\<close>, or, since SQLite keeps a value that is not numeric as it
  is, a \<open>str\<close> or \<open>bytes\<close>. A float is written as it is, except that NaN is
  written as \<open>NULL\<close>.
\<close>

datatype sql_value = Null | Real double | Text string | Blob string

definition sql_of_float :: "double \<Rightarrow> sql_value" where
  "sql_of_float d = (if d = NaN then Null else Real d)"

record profile_row =
  p_user_id :: string
  p_created_at :: string
  p_last_updated :: string
  p_experience_years :: int
  p_technical_field :: string
  p_current_role :: string
  p_skill_levels :: "(string \<times> int) list"
  p_profile_data :: user_profile

record session_row =
  s_session_id :: string
  s_user_id :: string
  s_created_at :: string
  s_completed_at :: "string option"
  s_status :: "string option"
  s_target_company :: string
  s_target_role :: string
  s_difficulty_level :: string
  s_session_data :: session_data

record metric_row =
  m_metric_id :: nat
  m_session_id :: string
  m_user_id :: string
  m_recorded_at :: string
  m_category :: "string option"
  m_metric_name :: string
  m_metric_value :: sql_value

record memory_bank =
  user_profiles :: "profile_row list"
  sessions :: "session_row list"
  performance_metrics :: "metric_row list"
  next_metric_id :: nat

definition empty_bank :: memory_bank where
  "empty_bank = \<lparr> user_profiles = [], sessions = [], performance_metrics = [],
                  next_metric_id = 1 \<rparr>"

definition generate_user_id :: "clock_reading \<Rightarrow> user_profile \<Rightarrow> string" where
  "generate_user_id now profile_data =
     ''user_''
     @ (case experience profile_data of None \<Rightarrow> ''unknown'' | Some e \<Rightarrow> field e)
     @ ''_'' @ compact now"

text \<open>\<open>store_user_profile\<close> writes the user id into the dictionary it is given; the
  caller sees the change, so the updated profile is returned with the bank.\<close>

definition store_user_profile ::
  "clock_reading \<Rightarrow> user_profile \<Rightarrow> memory_bank \<Rightarrow> bool \<times> user_profile \<times> memory_bank" where
  "store_user_profile now profile_data bank =
     (let uid = (case user_id profile_data of
                   Some u \<Rightarrow> u | None \<Rightarrow> generate_user_id now profile_data);
          profile_data' = profile_data\<lparr>user_id := Some uid\<rparr>;
          exists = list_ex (\<lambda>r. p_user_id r = uid) (user_profiles bank);
          e_years = (case experience profile_data' of None \<Rightarrow> 0 | Some e \<Rightarrow> years e);
          e_field = (case experience profile_data' of None \<Rightarrow> [] | Some e \<Rightarrow> field e);
          e_role = (case experience profile_data' of None \<Rightarrow> [] | Some e \<Rightarrow> current_role e);
          e_skills = (case experience profile_data' of
                        None \<Rightarrow> [] | Some e \<Rightarrow> self_assessment e)
      in if exists
         then (True, profile_data',
               bank\<lparr>user_profiles :=
                 map (\<lambda>r. if p_user_id r = uid
                           then r\<lparr>p_last_updated := isoformat now,
                                  p_experience_years := e_years,
                                  p_technical_field := e_field,
                                  p_current_role := e_role,
                                  p_skill_levels := e_skills,
                                  p_profile_data := profile_data'\<rparr>
                           else r)
                     (user_profiles bank)\<rparr>)
         else (True, profile_data',
               bank\<lparr>user_profiles := user_profiles bank @
                 [\<lparr> p_user_id = uid, p_created_at = isoformat now,
                    p_last_updated = isoformat now, p_experience_years = e_years,
                    p_technical_field = e_field, p_current_role = e_role,
                    p_skill_levels = e_skills, p_profile_data = profile_data' \<rparr>]\<rparr>))"

definition profile_is_empty :: "user_profile \<Rightarrow> bool" where
  "profile_is_empty p =
     (experience p = None \<and> target_job p = None \<and> difficulty_level p = None
      \<and> user_id p = None)"

text \<open>Inserting a session whose id is already a primary key raises, which the function
  turns into \<open>False\<close>; the profile stored before stays.\<close>

definition store_session_initialization ::
  "clock_reading \<Rightarrow> session_data \<Rightarrow> memory_bank \<Rightarrow> bool \<times> session_data \<times> memory_bank" where
  "store_session_initialization now session bank =
     (let (profile, bank1) =
            (if profile_is_empty (user_profile session) then (user_profile session, bank)
             else snd (store_user_profile now (user_profile session) bank));
          session' = session\<lparr>user_profile := profile\<rparr>;
          uid = (case user_id profile of Some u \<Rightarrow> u | None \<Rightarrow> session_id session)
      in if list_ex (\<lambda>r. s_session_id r = session_id session) (sessions bank1)
         then (False, session', bank1)
         else (True, session',
               bank1\<lparr>sessions := sessions bank1 @
                 [\<lparr> s_session_id = session_id session, s_user_id = uid,
                    s_created_at = created_at session, s_completed_at = None,
                    s_status = Some (status session),
                    s_target_company =
                      (case target_job profile of None \<Rightarrow> [] | Some j \<Rightarrow> company j),
                    s_target_role =
                      (case target_job profile of None \<Rightarrow> [] | Some j \<Rightarrow> role j),
                    s_difficulty_level =
                      (case difficulty_level profile of
                         None \<Rightarrow> ''intermediate'' | Some d \<Rightarrow> d),
                    s_session_data = session' \<rparr>]\<rparr>))"

definition insert_metric ::
  "string \<Rightarrow> string \<Rightarrow> string \<Rightarrow> string \<Rightarrow> string \<Rightarrow> sql_value \<Rightarrow> memory_bank
     \<Rightarrow> memory_bank" where
  "insert_metric sid uid recorded category name v bank =
     bank\<lparr>performance_metrics := performance_metrics bank @
            [\<lparr> m_metric_id = next_metric_id bank, m_session_id = sid, m_user_id = uid,
               m_recorded_at = recorded, m_category = Some category,
               m_metric_name = name,
               m_metric_value = v \<rparr>],
          next_metric_id := Suc (next_metric_id bank)\<rparr>"

text \<open>\<open>session_record['timestamp']\<close> raises \<open>KeyError\<close> when the key is absent; this
  happens before any statement is executed, and the function returns \<open>False\<close>.\<close>

definition store_session_record :: "session_data \<Rightarrow> memory_bank \<Rightarrow> bool \<times> memory_bank" where
  "store_session_record session_record bank =
     (case timestamp session_record of
        None \<Rightarrow> (False, bank)
      | Some ts \<Rightarrow>
          let sid = session_id session_record;
              uid = (case user_id (user_profile session_record) of
                       Some u \<Rightarrow> u | None \<Rightarrow> sid);
              bank1 = bank\<lparr>sessions :=
                        map (\<lambda>r. if s_session_id r = sid
                                  then r\<lparr>s_completed_at := Some ts,
                                         s_status := Some ''completed'',
                                         s_session_data := session_record\<rparr>
                                  else r)
                            (sessions bank)\<rparr>;
              scores = (case performance_analysis session_record of
                          None \<Rightarrow> [] | Some a \<Rightarrow> category_scores a);
              overall = (case performance_analysis session_record of
                           None \<Rightarrow> Finite 0
                         | Some a \<Rightarrow> (case overall_score a of
                                       None \<Rightarrow> Finite 0 | Some v \<Rightarrow> v));
              bank2 = foldl (\<lambda>b (category, score).
                               insert_metric sid uid ts category ''category_score''
                                 (sql_of_float score) b)
                            bank1 scores
          in (True, insert_metric sid uid ts ''overall'' ''session_score''
                      (sql_of_float overall) bank2))"

definition store_completed_session :: "session_data \<Rightarrow> memory_bank \<Rightarrow> bool \<times> memory_bank" where
  "store_completed_session session bank = store_session_record session bank"

subsection \<open>Retention\<close>

text \<open>
  \<open>cutoff_date\<close> is the text \<open>(datetime.now() - timedelta(days=days_old)).isoformat()\<close>;
  SQLite compares the text columns with it byte by byte, which is the lexicographic
  order on strings. A row whose \<open>status\<close> is \<open>NULL\<close> does not satisfy
  \<open>status = 'completed'\<close>.
\<close>

definition cleanup_old_data :: "string \<Rightarrow> memory_bank \<Rightarrow> nat \<times> memory_bank" where
  "cleanup_old_data cutoff_date bank =
     (let deleted_metrics =
            length (filter (\<lambda>m. m_recorded_at m < cutoff_date) (performance_metrics bank));
          bank1 = bank\<lparr>performance_metrics :=
                    filter (\<lambda>m. \<not> m_recorded_at m < cutoff_date) (performance_metrics bank)\<rparr>;
          deleted_sessions =
            length (filter (\<lambda>r. s_created_at r < cutoff_date \<and> s_status r = Some ''completed'')
                           (sessions bank1));
          bank2 = bank1\<lparr>sessions :=
                    filter (\<lambda>r. \<not> (s_created_at r < cutoff_date
                                     \<and> s_status r = Some ''completed''))
                           (sessions bank1)\<rparr>
      in (deleted_metrics + deleted_sessions, bank2))"

subsection \<open>Learning insights\<close>

record trend_entry =
  current_score :: sql_value
  average_score :: double
  trend :: string
  sessions_tracked :: nat

record learning_insights =
  insights_user_id :: string
  total_sessions :: nat
  performance_trends :: "(string option \<times> trend_entry) list"
  improvement_areas :: "string option list"
  strong_areas :: "string option list"
  learning_velocity :: string
  recommendations :: "string list"

text \<open>\<open>d[k] = v\<close> on a dictionary kept in insertion order.\<close>

fun dict_set :: "'k \<Rightarrow> 'v \<Rightarrow> ('k \<times> 'v) list \<Rightarrow> ('k \<times> 'v) list" where
  "dict_set k v [] = [(k, v)]"
| "dict_set k v ((k', v') # rest) =
     (if k' = k then (k, v) # rest else (k', v') # dict_set k v rest)"

text \<open>The query of \<open>get_learning_insights\<close>: the user's \<open>category_score\<close> rows by
  ascending \<open>recorded_at\<close>; rows with equal \<open>recorded_at\<close> keep their insertion order.\<close>

definition category_score_metrics :: "string \<Rightarrow> memory_bank \<Rightarrow> metric_row list" where
  "category_score_metrics uid bank =
     sort_key m_recorded_at
       (filter (\<lambda>m. m_user_id m = uid \<and> m_metric_name m = ''category_score'')
               (performance_metrics bank))"

definition group_step ::
  "(string option \<times> sql_value list) list \<Rightarrow> metric_row
     \<Rightarrow> (string option \<times> sql_value list) list" where
  "group_step category_performance metric =
     dict_set (m_category metric)
       ((case map_of category_performance (m_category metric) of
           None \<Rightarrow> [] | Some scores \<Rightarrow> scores) @ [m_metric_value metric])
       category_performance"

definition group_by_category :: "metric_row list \<Rightarrow> (string option \<times> sql_value list) list" where
  "group_by_category metrics = foldl group_step [] metrics"

text \<open>
  Arithmetic on what the column holds. Only two floats can be subtracted or added; any
  other operand raises \<open>TypeError\<close> with Python's message. \<open>sum\<close> starts from the
  integer \<open>0\<close> and adds the scores from left to right, rounding after each addition.
  (From version 3.12 on, CPython also carries a correction term through a sum of floats;
  that variant is not modelled.)
\<close>

definition type_name :: "sql_value \<Rightarrow> string" where
  "type_name v =
     (case v of Null \<Rightarrow> ''NoneType'' | Real _ \<Rightarrow> ''float'' | Text _ \<Rightarrow> ''str''
              | Blob _ \<Rightarrow> ''bytes'')"

definition type_error :: "string \<Rightarrow> string \<Rightarrow> string \<Rightarrow> py_exception" where
  "type_error operator left right =
     Exception (''unsupported operand type(s) for '' @ operator @ '': '' @ [CHR 0x27] @ left
                @ [CHR 0x27] @ '' and '' @ [CHR 0x27] @ right @ [CHR 0x27])"

definition py_sub :: "sql_value \<Rightarrow> sql_value \<Rightarrow> py_exception + double" where
  "py_sub a b =
     (case (a, b) of
        (Real x, Real y) \<Rightarrow> Inr (fl_sub x y)
      | _ \<Rightarrow> Inl (type_error ''-'' (type_name a) (type_name b)))"

fun sum_from :: "double \<Rightarrow> sql_value list \<Rightarrow> py_exception + double" where
  "sum_from acc [] = Inr acc"
| "sum_from acc (v # vs) =
     (case v of
        Real x \<Rightarrow> sum_from (fl_add acc x) vs
      | _ \<Rightarrow> Inl (type_error ''+'' ''float'' (type_name v)))"

text \<open>The sum of no scores is the integer \<open>0\<close>; the loop below sums at least two.\<close>

definition py_sum :: "sql_value list \<Rightarrow> py_exception + double" where
  "py_sum scores =
     (case scores of
        [] \<Rightarrow> Inr (Finite 0)
      | v # vs \<Rightarrow>
          (case v of
             Real x \<Rightarrow> sum_from (fl_add (Finite 0) x) vs
           | _ \<Rightarrow> Inl (type_error ''+'' ''int'' (type_name v))))"

text \<open>\<open>scores[-1] - scores[0]\<close> and \<open>sum(scores) / len(scores)\<close>, for a list of at
  least one score; the length is converted to a float exactly.\<close>

definition score_trend :: "sql_value list \<Rightarrow> py_exception + double" where
  "score_trend scores = py_sub (last scores) (hd scores)"

definition score_average :: "sql_value list \<Rightarrow> py_exception + double" where
  "score_average scores =
     (case py_sum scores of
        Inl e \<Rightarrow> Inl e
      | Inr sum_of_scores \<Rightarrow> Inr (fl_div_pos sum_of_scores (of_nat (length scores))))"

definition trend_label :: "double \<Rightarrow> string" where
  "trend_label t =
     (if fl_less (double_literal (1 / 10)) t then ''improving''
      else if fl_less t (fl_neg (double_literal (1 / 10))) then ''declining''
      else ''stable'')"

text \<open>The entry stored under \<open>performance_trends[category]\<close>. The trend is computed
  before the average, so a failing subtraction is the exception that is reported.\<close>

definition trend_entry_of :: "sql_value list \<Rightarrow> py_exception + trend_entry" where
  "trend_entry_of scores =
     (case score_trend scores of
        Inl e \<Rightarrow> Inl e
      | Inr t \<Rightarrow>
          (case score_average scores of
             Inl e \<Rightarrow> Inl e
           | Inr avg_score \<Rightarrow>
               Inr \<lparr> current_score = last scores, average_score = avg_score,
                     trend = trend_label t, sessions_tracked = length scores \<rparr>))"

text \<open>The body of the loop over the grouped scores.\<close>

definition analyse_category ::
  "learning_insights \<Rightarrow> string option \<times> sql_value list
     \<Rightarrow> py_exception + learning_insights" where
  "analyse_category insights entry =
     (case entry of (category, scores) \<Rightarrow>
        if length scores \<ge> 2
        then (case trend_entry_of scores of
                Inl e \<Rightarrow> Inl e
              | Inr computed \<Rightarrow>
                  let avg_score = average_score computed
                  in Inr (insights\<lparr>
                       performance_trends :=
                         dict_set category computed (performance_trends insights),
                       strong_areas :=
                         (if fl_le (double_literal (7 / 10)) avg_score
                          then strong_areas insights @ [category]
                          else strong_areas insights),
                       improvement_areas :=
                         (if \<not> fl_le (double_literal (7 / 10)) avg_score
                             \<and> fl_less avg_score (double_literal (1 / 2))
                          then improvement_areas insights @ [category]
                          else improvement_areas insights)\<rparr>))
        else Inr insights)"

fun analyse_all ::
  "learning_insights \<Rightarrow> (string option \<times> sql_value list) list
     \<Rightarrow> py_exception + learning_insights" where
  "analyse_all insights [] = Inr insights"
| "analyse_all insights (entry # entries) =
     (case analyse_category insights entry of
        Inl e \<Rightarrow> Inl e
      | Inr insights' \<Rightarrow> analyse_all insights' entries)"

text \<open>\<open>area.replace('_', ' ')\<close> on a category: \<open>None\<close> has no such method, and the
  call raises \<open>AttributeError\<close>.\<close>

definition attribute_error :: "string \<Rightarrow> string \<Rightarrow> py_exception" where
  "attribute_error type_of_object attribute =
     Exception ([CHR 0x27] @ type_of_object @ [CHR 0x27] @ '' object has no attribute ''
                @ [CHR 0x27] @ attribute @ [CHR 0x27])"

definition area_name :: "string option \<Rightarrow> py_exception + string" where
  "area_name area =
     (case area of
        None \<Rightarrow> Inl (attribute_error ''NoneType'' ''replace'')
      | Some a \<Rightarrow> Inr (replace_char (CHR ''_'') (CHR '' '') a))"

fun focus_recommendations :: "string option list \<Rightarrow> py_exception + string list" where
  "focus_recommendations [] = Inr []"
| "focus_recommendations (area # areas) =
     (case area_name area of
        Inl e \<Rightarrow> Inl e
      | Inr name \<Rightarrow>
          (case focus_recommendations areas of
             Inl e \<Rightarrow> Inl e
           | Inr rest \<Rightarrow> Inr ((''Focus on improving '' @ name @ '' skills'') # rest)))"

definition strength_recommendation :: "string option list \<Rightarrow> py_exception + string list" where
  "strength_recommendation strong =
     (case strong of
        [] \<Rightarrow> Inr []
      | strongest # _ \<Rightarrow>
          (case area_name strongest of
             Inl e \<Rightarrow> Inl e
           | Inr name \<Rightarrow>
               Inr [''Leverage your strength in '' @ name @ '' for complex problems'']))"

definition generate_learning_recommendations ::
  "learning_insights \<Rightarrow> py_exception + string list" where
  "generate_learning_recommendations insights =
     (case focus_recommendations (take 3 (improvement_areas insights)) of
        Inl e \<Rightarrow> Inl e
      | Inr focus \<Rightarrow>
          (case strength_recommendation (strong_areas insights) of
             Inl e \<Rightarrow> Inl e
           | Inr leverage \<Rightarrow>
               let recommendations =
                       focus
                     @ (if total_sessions insights < 3
                        then [''Complete more practice sessions to build momentum'']
                        else if total_sessions insights \<ge> 5
                        then [''Consider tackling more advanced difficulty levels'']
                        else [])
                     @ leverage
               in Inr (if recommendations = []
                       then [''Continue regular practice to build and maintain skills'']
                       else recommendations)))"

text \<open>The result \<open>Inl e\<close> is the dictionary \<open>{'user_id': user_id, 'error': str(e)}\<close> of
  the \<open>except\<close> branch.\<close>

definition get_learning_insights :: "string \<Rightarrow> memory_bank \<Rightarrow> py_exception + learning_insights" where
  "get_learning_insights uid bank =
     (let metrics = category_score_metrics uid bank;
          insights = \<lparr> insights_user_id = uid, total_sessions = 0, performance_trends = [],
                       improvement_areas = [], strong_areas = [],
                       learning_velocity = ''moderate'', recommendations = [] \<rparr>
      in if metrics = [] then Inr insights
         else
           let session_count =
                 length (filter (\<lambda>r. s_user_id r = uid \<and> s_status r = Some ''completed'')
                                (sessions bank))
           in case analyse_all (insights\<lparr>total_sessions := session_count\<rparr>)
                     (group_by_category metrics) of
                Inl e \<Rightarrow> Inl e
              | Inr analysed \<Rightarrow>
                  (case generate_learning_recommendations analysed of
                     Inl e \<Rightarrow> Inl e
                   | Inr advice \<Rightarrow> Inr (analysed\<lparr>recommendations := advice\<rparr>)))"

text \<open>The scores recorded for a user in one category, in the order of the query.\<close>

definition recorded_scores :: "string \<Rightarrow> memory_bank \<Rightarrow> string option \<Rightarrow> sql_value list" where
  "recorded_scores uid bank category =
     map m_metric_value
       (filter (\<lambda>m. m_category m = category) (category_score_metrics uid bank))"

definition is_float :: "sql_value \<Rightarrow> bool" where
  "is_float v = (case v of Real _ \<Rightarrow> True | _ \<Rightarrow> False)"

text \<open>A row whose score is a float and whose category is a text.\<close>

definition well_typed :: "metric_row \<Rightarrow> bool" where
  "well_typed m = (is_float (m_metric_value m) \<and> m_category m \<noteq> None)"

section \<open>Session lifecycle (\<open>sessions/session_manager.py\<close>)\<close>

text \<open>
  The manager holds the memory bank, the dictionary of active sessions and the history
  list. The handler of \<open>initialize_session\<close> catches every \<open>Exception\<close>.
\<close>

record session_manager =
  memory_bank :: memory_bank
  active_sessions :: "string \<rightharpoonup> session_data"
  session_history :: "session_data list"

definition new_session_manager :: "memory_bank \<Rightarrow> session_manager" where
  "new_session_manager bank =
     \<lparr> memory_bank = bank, active_sessions = Map.empty, session_history = [] \<rparr>"

text \<open>The id is built from the clock and the first eight characters of a fresh UUID.\<close>

definition generate_session_id :: "clock_reading \<Rightarrow> string \<Rightarrow> string" where
  "generate_session_id now uuid4 = ''atic_'' @ compact now @ ''_'' @ take 8 uuid4"

definition initial_session_data :: "string \<Rightarrow> clock_reading \<Rightarrow> session_data" where
  "initial_session_data sid now =
     \<lparr> session_id = sid, created_at = isoformat now, status = ''initializing'',
       user_profile = \<lparr> experience = None, target_job = None, difficulty_level = None,
                        user_id = None \<rparr>,
       extracted_requirements = None, interview_plan = None, agent_interactions = [],
       error = None, completed_at = None, last_updated = None, timestamp = None,
       performance_analysis = None \<rparr>"

text \<open>The \<open>except\<close> branch of \<open>initialize_session\<close>.\<close>

definition fail_session ::
  "py_exception \<Rightarrow> session_data \<Rightarrow> session_manager \<Rightarrow> string \<times> session_manager" where
  "fail_session e session mgr =
     (session_id session,
      mgr\<lparr>active_sessions :=
            (active_sessions mgr)(session_id session \<mapsto>
               session\<lparr>status := ''failed'', error := Some (message e)\<rparr>)\<rparr>)"

text \<open>
  Steps 1 and 2 read the terminal. What each of them produces, a dictionary or a raised
  exception, is an input of the model; step 2 is consulted only when step 1 returned.
  Steps 3 and 4 are the functions above. On success the session is registered and handed
  to \<open>store_session_initialization\<close>, which writes the generated user id into the
  profile dictionary that the registered session shares.
\<close>

definition initialize_session ::
  "clock_reading \<Rightarrow> string \<Rightarrow> py_exception + experience_data \<Rightarrow> py_exception + job_data
     \<Rightarrow> session_manager \<Rightarrow> string \<times> session_manager" where
  "initialize_session now uuid4 step1 step2 mgr =
     (let sid = generate_session_id now uuid4;
          session0 = initial_session_data sid now
      in case step1 of
           Inl e \<Rightarrow> fail_session e session0 mgr
         | Inr experience_data \<Rightarrow>
             let session1 = session0\<lparr>user_profile :=
                              (user_profile session0)\<lparr>experience := Some experience_data\<rparr>\<rparr>
             in case step2 of
                  Inl e \<Rightarrow> fail_session e session1 mgr
                | Inr job_data \<Rightarrow>
                    let session2 = session1\<lparr>user_profile :=
                                     (user_profile session1)\<lparr>target_job := Some job_data\<rparr>\<rparr>;
                        extracted_skills = perform_context_engineering (description job_data);
                        session3 = session2\<lparr>extracted_requirements := Some extracted_skills\<rparr>;
                        plan = create_adaptive_interview_plan experience_data job_data
                                 extracted_skills;
                        session4 = session3\<lparr>
                          interview_plan := Some plan,
                          status := ''initialized'',
                          user_profile :=
                            (user_profile session3)\<lparr>difficulty_level :=
                               Some (calculate_initial_difficulty experience_data
                                       extracted_skills)\<rparr>\<rparr>;
                        (stored, session5, bank) =
                          store_session_initialization now session4 (memory_bank mgr)
                    in (sid, mgr\<lparr>active_sessions := (active_sessions mgr)(sid \<mapsto> session5),
                                memory_bank := bank\<rparr>))"

definition get_session_data :: "session_manager \<Rightarrow> string \<Rightarrow> session_data option" where
  "get_session_data mgr sid = active_sessions mgr sid"

text \<open>\<open>additional_data\<close> is a dictionary merged over the session; it is modelled by the
  change it makes to the session record, \<open>None\<close> standing for an absent or empty one.\<close>

definition update_session_status ::
  "clock_reading \<Rightarrow> string \<Rightarrow> string \<Rightarrow> (session_data \<Rightarrow> session_data) option
     \<Rightarrow> session_manager \<Rightarrow> bool \<times> session_manager" where
  "update_session_status now sid new_status additional_data mgr =
     (case active_sessions mgr sid of
        None \<Rightarrow> (False, mgr)
      | Some session \<Rightarrow>
          let session1 = session\<lparr>status := new_status, last_updated := Some (isoformat now)\<rparr>;
              session2 = (case additional_data of
                            None \<Rightarrow> session1 | Some merge \<Rightarrow> merge session1)
          in (True, mgr\<lparr>active_sessions := (active_sessions mgr)(sid \<mapsto> session2)\<rparr>))"

definition record_agent_interaction ::
  "clock_reading \<Rightarrow> string \<Rightarrow> string \<Rightarrow> (string \<times> string) list
     \<Rightarrow> session_manager \<Rightarrow> bool \<times> session_manager" where
  "record_agent_interaction now sid agent_name interaction_data mgr =
     (case active_sessions mgr sid of
        None \<Rightarrow> (False, mgr)
      | Some session \<Rightarrow>
          let interaction_record =
                \<lparr> interaction_timestamp = isoformat now, agent = agent_name,
                  interaction_type = (case map_of interaction_data ''type'' of
                                        None \<Rightarrow> ''unknown'' | Some t \<Rightarrow> t),
                  interaction_payload = interaction_data \<rparr>
          in (True, mgr\<lparr>active_sessions := (active_sessions mgr)(sid \<mapsto>
                          session\<lparr>agent_interactions :=
                                    agent_interactions session @ [interaction_record]\<rparr>)\<rparr>))"

text \<open>The result \<open>None\<close> is the empty dictionary returned for an id that is not active.\<close>

definition finalize_session ::
  "clock_reading \<Rightarrow> string \<Rightarrow> session_manager \<Rightarrow> session_data option \<times> session_manager" where
  "finalize_session now sid mgr =
     (case active_sessions mgr sid of
        None \<Rightarrow> (None, mgr)
      | Some session \<Rightarrow>
          let session' = session\<lparr>status := ''completed'',
                                 completed_at := Some (isoformat now)\<rparr>;
              (stored, bank) = store_completed_session session' (memory_bank mgr)
          in (Some session',
              mgr\<lparr>session_history := session_history mgr @ [session'],
                  active_sessions := (active_sessions mgr)(sid := None),
                  memory_bank := bank\<rparr>))"

section \<open>Sample inputs\<close>

definition sample_experience :: "int \<Rightarrow> experience_data" where
  "sample_experience n =
     \<lparr> years = n, field = ''front-end'', current_role = ''Developer'', company_size = [],
       previous_interviews = [], self_assessment = [],
       proficiency_areas = get_skill_areas_for_field ''front-end'',
       experience_level = categorize_experience_level n \<rparr>"

definition sample_job :: "string \<Rightarrow> job_data" where
  "sample_job d =
     \<lparr> company = ''Acme'', role = ''Engineer'', description = d, timeline = [],
       description_length = length d, collected_at = ''2025-01-01T10:00:00'' \<rparr>"

definition sample_clock :: clock_reading where
  "sample_clock = \<lparr> isoformat = ''2025-01-01T10:00:00'', compact = ''20250101_100000'' \<rparr>"

definition sample_metric :: "nat \<Rightarrow> string \<Rightarrow> string \<Rightarrow> rat \<Rightarrow> metric_row" where
  "sample_metric n recorded category v =
     \<lparr> m_metric_id = n, m_session_id = ''s'' , m_user_id = ''u'', m_recorded_at = recorded,
       m_category = Some category, m_metric_name = ''category_score'',
       m_metric_value = Real (double_literal v) \<rparr>"

definition sample_scores_bank :: "rat list \<Rightarrow> memory_bank" where
  "sample_scores_bank vs =
     empty_bank\<lparr>performance_metrics :=
       map (\<lambda>(n, v). sample_metric n (''2025-01-0'' @ [char_of (48 + n)]) ''communication'' v)
           (zip [1 ..< Suc (length vs)] vs)\<rparr>"

text \<open>The labels and the two area lists of a result, or the message of the exception.\<close>

definition insight_summary ::
  "py_exception + learning_insights
     \<Rightarrow> string + (string option \<times> string) list \<times> string option list \<times> string option list" where
  "insight_summary result =
     map_sum message
       (\<lambda>ins. (map (\<lambda>(category, entry). (category, trend entry)) (performance_trends ins),
               strong_areas ins, improvement_areas ins))
       result"

definition sample_session_row :: "string \<Rightarrow> string \<Rightarrow> string \<Rightarrow> session_row" where
  "sample_session_row sid created st =
     \<lparr> s_session_id = sid, s_user_id = ''u'', s_created_at = created, s_completed_at = None,
       s_status = Some st, s_target_company = ''Acme'', s_target_role = ''Engineer'',
       s_difficulty_level = ''intermediate'',
       s_session_data = (initial_session_data sid sample_clock)\<lparr>created_at := created,
                                                                 status := st\<rparr> \<rparr>"

definition sample_profile_row :: profile_row where
  "sample_profile_row =
     \<lparr> p_user_id = ''u'', p_created_at = ''2024-01-01T08:00:00'',
       p_last_updated = ''2024-01-01T08:00:00'', p_experience_years = 4,
       p_technical_field = ''front-end'', p_current_role = ''Developer'', p_skill_levels = [],
       p_profile_data = \<lparr> experience = Some (sample_experience 4), target_job = None,
                          difficulty_level = None, user_id = Some ''u'' \<rparr> \<rparr>"

text \<open>A bank with one profile, an old completed session, an old session that was never
  completed, a recent completed session, an old metric and a recent one.\<close>

definition sample_retention_bank :: memory_bank where
  "sample_retention_bank =
     \<lparr> user_profiles = [sample_profile_row],
       sessions = [sample_session_row ''s1'' ''2024-01-01T09:00:00'' ''completed'',
                   sample_session_row ''s2'' ''2024-01-02T09:00:00'' ''initialized'',
                   sample_session_row ''s3'' ''2025-06-01T09:00:00'' ''completed''],
       performance_metrics = [sample_metric 1 ''2024-01-01T09:30:00'' ''communication'' 0.4,
                              sample_metric 2 ''2025-06-01T09:30:00'' ''communication'' 0.6],
       next_metric_id = 3 \<rparr>"

text \<open>A manager with one successfully initialised session.\<close>

definition sample_uuid :: string where
  "sample_uuid = ''01234567-89ab-4cde-8f01-23456789abcd''"

definition sample_session_id :: string where
  "sample_session_id = generate_session_id sample_clock sample_uuid"

definition sample_manager :: session_manager where
  "sample_manager =
     snd (initialize_session sample_clock sample_uuid (Inr (sample_experience 4))
            (Inr (sample_job ''Senior engineer, coding'')) (new_session_manager empty_bank))"


section \<open>Properties of extraction and plan building\<close>

text \<open>
  Claim C1, as amended. For every job description that is not blank, the required skills
  followed by the preferred skills are the technology stack: the required skills are its
  first six entries (so at most six), the preferred skills the rest. (A blank description
  returns the default template, whose three lists are fixed literals.)
\<close>

theorem split_required_preferred:
  assumes "strip jd \<noteq> []"
  shows "required_technical_skills (perform_context_engineering jd)
           @ preferred_skills (perform_context_engineering jd)
         = technology_stack (perform_context_engineering jd)
       \<and> required_technical_skills (perform_context_engineering jd)
         = take 6 (technology_stack (perform_context_engineering jd))
       \<and> preferred_skills (perform_context_engineering jd)
         = drop 6 (technology_stack (perform_context_engineering jd))
       \<and> length (required_technical_skills (perform_context_engineering jd)) \<le> 6"
  using assms by (simp add: perform_context_engineering_def Let_def split: prod.splits)

theorem split_required_preferred_witness:
  "strip ''Python, Java, Go, Rust, PHP, Ruby, React and SQL'' \<noteq> []
   \<and> technology_stack
       (perform_context_engineering ''Python, Java, Go, Rust, PHP, Ruby, React and SQL'')
     = [''python'', ''java'', ''go'', ''rust'', ''php'', ''ruby'', ''react'', ''sql'']
   \<and> required_technical_skills
       (perform_context_engineering ''Python, Java, Go, Rust, PHP, Ruby, React and SQL'')
     = [''python'', ''java'', ''go'', ''rust'', ''php'', ''ruby'']
   \<and> preferred_skills
       (perform_context_engineering ''Python, Java, Go, Rust, PHP, Ruby, React and SQL'')
     = [''react'', ''sql'']"
proof -
  have nonblank: "strip ''Python, Java, Go, Rust, PHP, Ruby, React and SQL'' \<noteq> []"
    by code_simp
  have stack: "technology_stack
       (perform_context_engineering ''Python, Java, Go, Rust, PHP, Ruby, React and SQL'')
     = [''python'', ''java'', ''go'', ''rust'', ''php'', ''ruby'', ''react'', ''sql'']"
    by code_simp
  from split_required_preferred [OF nonblank] stack nonblank show ?thesis
    by simp
qed

text \<open>
  Claim C1 as stated fails for the empty description: the default template has the
  technology stack \<open>['General Programming']\<close>, which is not empty, and its required and
  preferred lists together are five other entries.
\<close>

theorem blank_description_counterexample:
  "technology_stack (perform_context_engineering []) \<noteq> []
   \<and> required_technical_skills (perform_context_engineering [])
       @ preferred_skills (perform_context_engineering [])
     \<noteq> technology_stack (perform_context_engineering [])"
  by code_simp

lemma session_structure_plan:
  "session_structure (create_adaptive_interview_plan e j x)
     = build_session_phases (experience_level e) (complexity_level x) (interview_focus_areas x)"
  by (simp add: create_adaptive_interview_plan_def Let_def)

text \<open>
  Claim C2, as amended. The plan has at least one phase whenever the user's level is mid
  or senior, or the focus areas contain one of \<open>coding_problems\<close>, \<open>system_design\<close>,
  \<open>technical_knowledge\<close>, \<open>behavioral_leadership\<close>; in particular, for focus areas
  \<open>['general_technical']\<close> a mid or senior user gets exactly the behavioral phase.
\<close>

theorem plan_has_phase:
  "(experience_level e \<in> {''mid'', ''senior''}
      \<or> set (interview_focus_areas x)
          \<inter> {''coding_problems'', ''system_design'', ''technical_knowledge'',
              ''behavioral_leadership''} \<noteq> {}
    \<longrightarrow> 1 \<le> length (session_structure (create_adaptive_interview_plan e j x)))
   \<and> (experience_level e \<in> {''mid'', ''senior''}
        \<and> interview_focus_areas x = [''general_technical'']
      \<longrightarrow> session_structure (create_adaptive_interview_plan e j x)
            = [\<lparr> phase = ''behavioral'', duration_minutes = 10, question_count = 2,
                 difficulty = experience_level e \<rparr>])"
  by (auto simp add: session_structure_plan build_session_phases_def)

theorem plan_has_phase_witness:
  "experience_level (sample_experience 4) \<in> {''mid'', ''senior''}
   \<and> interview_focus_areas (perform_context_engineering ''hello'') = [''general_technical'']
   \<and> 1 \<le> length (session_structure
         (create_adaptive_interview_plan (sample_experience 4) (sample_job ''hello'')
            (perform_context_engineering ''hello'')))
   \<and> session_structure
         (create_adaptive_interview_plan (sample_experience 4) (sample_job ''hello'')
            (perform_context_engineering ''hello''))
       = [\<lparr> phase = ''behavioral'', duration_minutes = 10, question_count = 2,
            difficulty = ''mid'' \<rparr>]"
proof -
  have lvl: "experience_level (sample_experience 4) = ''mid''"
    by (simp add: sample_experience_def categorize_experience_level_def)
  have focus: "interview_focus_areas (perform_context_engineering ''hello'')
                 = [''general_technical'']"
    by code_simp
  from plan_has_phase [of "sample_experience 4" "perform_context_engineering ''hello''"
         "sample_job ''hello''"] lvl focus
  show ?thesis by simp
qed

text \<open>
  Claim C2 as stated fails for a junior user (one year of experience) and a description
  without any keyword: the focus areas are \<open>['general_technical']\<close> and the plan has no
  phase.
\<close>

theorem junior_general_plan_counterexample:
  "experience_level (sample_experience 1) = ''junior''
   \<and> interview_focus_areas (perform_context_engineering ''hello'') = [''general_technical'']
   \<and> length (session_structure
         (create_adaptive_interview_plan (sample_experience 1) (sample_job ''hello'')
            (perform_context_engineering ''hello''))) = 0"
  by code_simp

text \<open>
  Claim C3, as amended. A senior user with an advanced job gets \<open>advanced\<close>; otherwise a
  junior user or a beginner job gives \<open>beginner\<close>; every other combination gives
  \<open>intermediate\<close>. In particular a senior user facing a beginner job gets \<open>beginner\<close>.
\<close>

theorem initial_difficulty_rule:
  "(experience_level e = ''senior'' \<and> complexity_level x = ''advanced''
      \<longrightarrow> calculate_initial_difficulty e x = ''advanced'')
   \<and> (\<not> (experience_level e = ''senior'' \<and> complexity_level x = ''advanced'')
        \<and> (experience_level e = ''junior'' \<or> complexity_level x = ''beginner'')
      \<longrightarrow> calculate_initial_difficulty e x = ''beginner'')
   \<and> (\<not> (experience_level e = ''senior'' \<and> complexity_level x = ''advanced'')
        \<and> experience_level e \<noteq> ''junior'' \<and> complexity_level x \<noteq> ''beginner''
      \<longrightarrow> calculate_initial_difficulty e x = ''intermediate'')
   \<and> (experience_level e = ''senior'' \<and> complexity_level x = ''beginner''
      \<longrightarrow> calculate_initial_difficulty e x = ''beginner'')"
  by (auto simp add: calculate_initial_difficulty_def Let_def)

theorem initial_difficulty_rule_witness:
  "experience_level (sample_experience 7) = ''senior''
   \<and> complexity_level (perform_context_engineering ''Principal architect'') = ''advanced''
   \<and> calculate_initial_difficulty (sample_experience 7)
        (perform_context_engineering ''Principal architect'') = ''advanced''
   \<and> complexity_level (perform_context_engineering ''Junior developer'') = ''beginner''
   \<and> calculate_initial_difficulty (sample_experience 7)
        (perform_context_engineering ''Junior developer'') = ''beginner''
   \<and> experience_level (sample_experience 4) = ''mid''
   \<and> calculate_initial_difficulty (sample_experience 4)
        (perform_context_engineering ''Principal architect'') = ''intermediate''"
proof -
  have senior: "experience_level (sample_experience 7) = ''senior''"
    by (simp add: sample_experience_def categorize_experience_level_def)
  have mid: "experience_level (sample_experience 4) = ''mid''"
    by (simp add: sample_experience_def categorize_experience_level_def)
  have adv: "complexity_level (perform_context_engineering ''Principal architect'')
               = ''advanced''"
    by code_simp
  have beg: "complexity_level (perform_context_engineering ''Junior developer'') = ''beginner''"
    by code_simp
  from initial_difficulty_rule
         [of "sample_experience 7" "perform_context_engineering ''Principal architect''"]
       initial_difficulty_rule
         [of "sample_experience 7" "perform_context_engineering ''Junior developer''"]
       initial_difficulty_rule
         [of "sample_experience 4" "perform_context_engineering ''Principal architect''"]
       senior mid adv beg
  show ?thesis by simp
qed

text \<open>
  Claim C3 as stated fails in its last part: for a senior user (seven years) and a job
  description whose complexity is \<open>beginner\<close> the initial difficulty is
  \<open>beginner\<close>, not \<open>intermediate\<close>.
\<close>

theorem senior_beginner_counterexample:
  "experience_level (sample_experience 7) = ''senior''
   \<and> complexity_level (perform_context_engineering ''Junior developer'') = ''beginner''
   \<and> calculate_initial_difficulty (sample_experience 7)
        (perform_context_engineering ''Junior developer'') = ''beginner''"
  by code_simp

text \<open>
  On the three levels of its own table \<open>match_difficulty_to_gap\<close> returns the higher of
  the two, and the coding phase comes first whenever \<open>coding_problems\<close> is a focus area.
\<close>

lemma match_difficulty_to_gap_own_levels:
  assumes "u \<in> {''junior'', ''mid'', ''senior''}" and "j \<in> {''junior'', ''mid'', ''senior''}"
  shows "match_difficulty_to_gap u j
           = (if seniority_score u \<le> seniority_score j then j else u)"
  using assms
  by (auto simp add: match_difficulty_to_gap_def seniority_score_def seniority_levels_def)

lemma coding_phase_first:
  assumes "''coding_problems'' \<in> set (interview_focus_areas x)"
  shows "\<exists>rest. session_structure (create_adaptive_interview_plan e j x)
           = \<lparr> phase = ''coding_assessment'', duration_minutes = 30, question_count = 2,
               difficulty = match_difficulty_to_gap (experience_level e) (complexity_level x) \<rparr>
             # rest"
  using assms by (simp add: session_structure_plan build_session_phases_def)

text \<open>
  Claim C4 at a failing input. The plan builder passes the job's complexity level
  (\<open>beginner\<close>, \<open>intermediate\<close>, \<open>advanced\<close>) where the table expects \<open>junior\<close>,
  \<open>mid\<close>, \<open>senior\<close>, so the job always ranks 2. For a user with four years (mid) and the
  description \<open>Senior engineer, coding\<close> (seniority senior, complexity advanced) the coding
  phase gets difficulty \<open>mid\<close>, the lower of the two levels.
\<close>

theorem coding_difficulty_mid_user_senior_job:
  "experience_level (sample_experience 4) = ''mid''
   \<and> seniority_indicators (perform_context_engineering ''Senior engineer, coding'') = [''senior'']
   \<and> complexity_level (perform_context_engineering ''Senior engineer, coding'') = ''advanced''
   \<and> ''coding_problems''
       \<in> set (interview_focus_areas (perform_context_engineering ''Senior engineer, coding''))
   \<and> hd (session_structure
         (create_adaptive_interview_plan (sample_experience 4)
            (sample_job ''Senior engineer, coding'')
            (perform_context_engineering ''Senior engineer, coding'')))
       = \<lparr> phase = ''coding_assessment'', duration_minutes = 30, question_count = 2,
           difficulty = ''mid'' \<rparr>"
  by code_simp

section \<open>Properties of the memory bank\<close>

subsection \<open>Retention\<close>

lemma cleanup_fst:
  "fst (cleanup_old_data c bank)
     = length (filter (\<lambda>m. m_recorded_at m < c) (performance_metrics bank))
       + length (filter (\<lambda>r. s_created_at r < c \<and> s_status r = Some ''completed'')
                        (sessions bank))"
  by (simp add: cleanup_old_data_def Let_def)

lemma cleanup_snd:
  "snd (cleanup_old_data c bank)
     = bank\<lparr>performance_metrics :=
              filter (\<lambda>m. \<not> m_recorded_at m < c) (performance_metrics bank),
            sessions :=
              filter (\<lambda>r. \<not> (s_created_at r < c \<and> s_status r = Some ''completed''))
                     (sessions bank)\<rparr>"
  by (simp add: cleanup_old_data_def Let_def)

lemma filter_neg_then_pos: "filter P (filter (\<lambda>x. \<not> P x) xs) = []"
  by (induction xs) auto

lemma filter_neg_twice: "filter (\<lambda>x. \<not> P x) (filter (\<lambda>x. \<not> P x) xs) = filter (\<lambda>x. \<not> P x) xs"
  by (induction xs) auto

text \<open>
  Claim C5. For every bank and every cutoff, purging twice in a row with the same cutoff
  removes nothing the second time and leaves the bank as the first purge left it; the
  profile rows are untouched, and every session row whose status is not \<open>completed\<close> is
  kept.
\<close>

theorem purge_idempotent:
  "fst (cleanup_old_data c (snd (cleanup_old_data c bank))) = 0
   \<and> snd (cleanup_old_data c (snd (cleanup_old_data c bank))) = snd (cleanup_old_data c bank)
   \<and> user_profiles (snd (cleanup_old_data c bank)) = user_profiles bank
   \<and> filter (\<lambda>r. s_status r \<noteq> Some ''completed'') (sessions (snd (cleanup_old_data c bank)))
       = filter (\<lambda>r. s_status r \<noteq> Some ''completed'') (sessions bank)"
proof -
  let ?old_metric = "\<lambda>m. m_recorded_at m < c"
  let ?old_session = "\<lambda>r. s_created_at r < c \<and> s_status r = Some ''completed''"
  have count: "fst (cleanup_old_data c (snd (cleanup_old_data c bank))) = 0"
    by (simp add: cleanup_fst cleanup_snd filter_neg_then_pos [of ?old_metric]
          filter_neg_then_pos [of ?old_session])
  have same: "snd (cleanup_old_data c (snd (cleanup_old_data c bank)))
                = snd (cleanup_old_data c bank)"
    by (simp add: cleanup_snd filter_neg_twice [of ?old_metric]
          filter_neg_twice [of ?old_session])
  have profiles: "user_profiles (snd (cleanup_old_data c bank)) = user_profiles bank"
    by (simp add: cleanup_snd)
  have kept: "filter (\<lambda>r. s_status r \<noteq> Some ''completed'')
                (sessions (snd (cleanup_old_data c bank)))
              = filter (\<lambda>r. s_status r \<noteq> Some ''completed'') (sessions bank)"
    by (simp add: cleanup_snd) (rule filter_cong, auto)
  from count same profiles kept show ?thesis by simp
qed

theorem purge_idempotent_witness:
  "fst (cleanup_old_data ''2025-01-01T00:00:00'' sample_retention_bank) = 2
   \<and> fst (cleanup_old_data ''2025-01-01T00:00:00''
            (snd (cleanup_old_data ''2025-01-01T00:00:00'' sample_retention_bank))) = 0
   \<and> map s_session_id
        (sessions (snd (cleanup_old_data ''2025-01-01T00:00:00'' sample_retention_bank)))
       = [''s2'', ''s3'']
   \<and> user_profiles (snd (cleanup_old_data ''2025-01-01T00:00:00'' sample_retention_bank))
       = [sample_profile_row]"
proof -
  have first: "fst (cleanup_old_data ''2025-01-01T00:00:00'' sample_retention_bank) = 2"
    by code_simp
  have kept: "map s_session_id
        (sessions (snd (cleanup_old_data ''2025-01-01T00:00:00'' sample_retention_bank)))
       = [''s2'', ''s3'']"
    by code_simp
  have profiles: "user_profiles sample_retention_bank = [sample_profile_row]"
    by (simp add: sample_retention_bank_def)
  from purge_idempotent [of "''2025-01-01T00:00:00''" sample_retention_bank] first kept profiles
  show ?thesis by simp
qed

subsection \<open>Learning insights\<close>

lemma map_of_dict_set: "map_of (dict_set k v d) = (map_of d)(k \<mapsto> v)"
  by (induction d) (auto simp add: fun_eq_iff)

lemma keys_dict_set: "fst ` set (dict_set k v d) = insert k (fst ` set d)"
  by (induction d) force+

lemma distinct_dict_set: "distinct (map fst d) \<Longrightarrow> distinct (map fst (dict_set k v d))"
proof (induction d)
  case Nil
  then show ?case by simp
next
  case (Cons entry d)
  obtain k' v' where entry: "entry = (k', v')" by (cases entry)
  from Cons have "distinct (map fst (dict_set k v d))" by simp
  with Cons.prems entry show ?case
    using keys_dict_set [of k v d] by auto
qed

lemma map_of_group_step:
  "map_of (group_step acc m) c
     = (if m_category m = c
        then Some ((case map_of acc c of None \<Rightarrow> [] | Some scores \<Rightarrow> scores)
                   @ [m_metric_value m])
        else map_of acc c)"
  by (simp add: group_step_def map_of_dict_set)

lemma distinct_group_step: "distinct (map fst acc) \<Longrightarrow> distinct (map fst (group_step acc m))"
  by (simp add: group_step_def distinct_dict_set)

lemma distinct_foldl_group:
  "distinct (map fst acc) \<Longrightarrow> distinct (map fst (foldl group_step acc ms))"
  by (induction ms arbitrary: acc) (simp_all add: distinct_group_step)

lemma map_of_foldl_group:
  "map_of (foldl group_step acc ms) c
     = (if filter (\<lambda>m. m_category m = c) ms = [] then map_of acc c
        else Some ((case map_of acc c of None \<Rightarrow> [] | Some scores \<Rightarrow> scores)
                   @ map m_metric_value (filter (\<lambda>m. m_category m = c) ms)))"
proof (induction ms arbitrary: acc)
  case Nil
  then show ?case by simp
next
  case (Cons m ms)
  show ?case
    by (simp add: Cons.IH map_of_group_step split: option.splits)
qed

lemma map_of_group_by_category:
  "map_of (group_by_category ms) c
     = (if filter (\<lambda>m. m_category m = c) ms = [] then None
        else Some (map m_metric_value (filter (\<lambda>m. m_category m = c) ms)))"
  by (simp add: group_by_category_def map_of_foldl_group)

lemma distinct_group_by_category: "distinct (map fst (group_by_category ms))"
  by (simp add: group_by_category_def distinct_foldl_group)

lemma recorded_scores_empty:
  "category_score_metrics uid bank = [] \<Longrightarrow> recorded_scores uid bank c = []"
  by (simp add: recorded_scores_def)

lemma map_of_groups_recorded:
  "map_of (group_by_category (category_score_metrics uid bank)) c
     = (if recorded_scores uid bank c = [] then None else Some (recorded_scores uid bank c))"
  by (simp add: map_of_group_by_category recorded_scores_def)

text \<open>The three thresholds as doubles, and what the order of doubles gives for them.\<close>

lemma tenth: "double_literal (1 / 10) = Finite (3602879701896397 / 36028797018963968)"
  by code_simp

lemma seven_tenths: "double_literal (7 / 10) = Finite (3152519739159347 / 4503599627370496)"
  by code_simp

lemma one_half: "double_literal (1 / 2) = Finite (1 / 2)"
  by code_simp

lemma below_band_not_above:
  "fl_less t (fl_neg (double_literal (1 / 10))) \<Longrightarrow> \<not> fl_less (double_literal (1 / 10)) t"
  unfolding tenth by (cases t) (auto simp add: fl_less_def)

lemma trend_label_cases:
  "(trend_label t = ''improving'' \<longleftrightarrow> fl_less (double_literal (1 / 10)) t)
   \<and> (trend_label t = ''declining'' \<longleftrightarrow> fl_less t (fl_neg (double_literal (1 / 10))))
   \<and> (trend_label t = ''stable''
        \<longleftrightarrow> \<not> fl_less (double_literal (1 / 10)) t
            \<and> \<not> fl_less t (fl_neg (double_literal (1 / 10))))"
  using below_band_not_above [of t] by (auto simp add: trend_label_def)

lemma strong_not_weak:
  "fl_le (double_literal (7 / 10)) a \<Longrightarrow> \<not> fl_less a (double_literal (1 / 2))"
  unfolding seven_tenths one_half by (cases a) (auto simp add: fl_le_def fl_less_def)

text \<open>One pass of the loop, when it raises nothing.\<close>

lemma trend_entry_of_Inr:
  "trend_entry_of sc = Inr en \<longleftrightarrow>
     (\<exists>t avg. score_trend sc = Inr t \<and> score_average sc = Inr avg
        \<and> en = \<lparr> current_score = last sc, average_score = avg, trend = trend_label t,
                  sessions_tracked = length sc \<rparr>)"
  by (auto simp add: trend_entry_of_def split: sum.splits)

lemma analyse_category_short:
  "length sc < 2 \<Longrightarrow> analyse_category ins (k, sc) = Inr ins"
  by (simp add: analyse_category_def)

lemma analyse_category_long:
  assumes "2 \<le> length sc" and "analyse_category ins (k, sc) = Inr ins'"
  shows "\<exists>en. trend_entry_of sc = Inr en
           \<and> performance_trends ins' = dict_set k en (performance_trends ins)
           \<and> strong_areas ins'
               = strong_areas ins
                 @ (if fl_le (double_literal (7 / 10)) (average_score en) then [k] else [])
           \<and> improvement_areas ins'
               = improvement_areas ins
                 @ (if fl_less (average_score en) (double_literal (1 / 2)) then [k] else [])"
proof -
  from assms obtain en where en: "trend_entry_of sc = Inr en"
    by (auto simp add: analyse_category_def split: sum.splits)
  with assms have ins': "ins' = ins\<lparr>
       performance_trends := dict_set k en (performance_trends ins),
       strong_areas :=
         (if fl_le (double_literal (7 / 10)) (average_score en)
          then strong_areas ins @ [k] else strong_areas ins),
       improvement_areas :=
         (if \<not> fl_le (double_literal (7 / 10)) (average_score en)
             \<and> fl_less (average_score en) (double_literal (1 / 2))
          then improvement_areas ins @ [k] else improvement_areas ins)\<rparr>"
    by (simp add: analyse_category_def Let_def)
  have band: "(\<not> fl_le (double_literal (7 / 10)) (average_score en)
                \<and> fl_less (average_score en) (double_literal (1 / 2)))
              \<longleftrightarrow> fl_less (average_score en) (double_literal (1 / 2))"
    using strong_not_weak [of "average_score en"] by blast
  from en show ?thesis
    unfolding ins' band by simp
qed

text \<open>The whole loop over groups with distinct keys.\<close>

lemma trends_analyse_all:
  assumes "analyse_all ins gs = Inr ins'" and "distinct (map fst gs)"
  shows "map_of (performance_trends ins') c
           = (case map_of gs c of
                None \<Rightarrow> map_of (performance_trends ins) c
              | Some sc \<Rightarrow> if 2 \<le> length sc
                           then (case trend_entry_of sc of Inl e \<Rightarrow> None | Inr en \<Rightarrow> Some en)
                           else map_of (performance_trends ins) c)"
  using assms
proof (induction gs arbitrary: ins)
  case Nil
  then show ?case by simp
next
  case (Cons g gs)
  obtain k sc where g: "g = (k, sc)" by (cases g)
  from Cons.prems g obtain ins1 where
    step: "analyse_category ins (k, sc) = Inr ins1" and rest: "analyse_all ins1 gs = Inr ins'"
    by (auto split: sum.splits)
  from Cons.prems g have absent: "map_of gs k = None" and dist: "distinct (map fst gs)"
    by (auto simp add: map_of_eq_None_iff)
  note IH = Cons.IH [OF rest dist]
  show ?case
  proof (cases "2 \<le> length sc")
    case True
    from analyse_category_long [OF True step] obtain en where
      "trend_entry_of sc = Inr en"
      "performance_trends ins1 = dict_set k en (performance_trends ins)"
      by blast
    then show ?thesis
      using IH absent True by (simp add: g map_of_dict_set split: option.splits)
  next
    case False
    with step have "ins1 = ins" by (simp add: analyse_category_short)
    then show ?thesis
      using IH absent False by (simp add: g split: option.splits)
  qed
qed

lemma strong_analyse_all:
  assumes "analyse_all ins gs = Inr ins'"
  shows "strong_areas ins'
           = strong_areas ins
             @ map fst (filter (\<lambda>(k, sc). 2 \<le> length sc
                                  \<and> (\<exists>en. trend_entry_of sc = Inr en
                                         \<and> fl_le (double_literal (7 / 10)) (average_score en)))
                               gs)"
  using assms
proof (induction gs arbitrary: ins)
  case Nil
  then show ?case by simp
next
  case (Cons g gs)
  obtain k sc where g: "g = (k, sc)" by (cases g)
  from Cons.prems g obtain ins1 where
    step: "analyse_category ins (k, sc) = Inr ins1" and rest: "analyse_all ins1 gs = Inr ins'"
    by (auto split: sum.splits)
  note IH = Cons.IH [OF rest]
  show ?case
  proof (cases "2 \<le> length sc")
    case True
    from analyse_category_long [OF True step] obtain en where
      "trend_entry_of sc = Inr en"
      "strong_areas ins1
         = strong_areas ins
           @ (if fl_le (double_literal (7 / 10)) (average_score en) then [k] else [])"
      by blast
    then show ?thesis
      using IH True by (simp add: g)
  next
    case False
    with step have "ins1 = ins" by (simp add: analyse_category_short)
    then show ?thesis
      using IH False by (simp add: g)
  qed
qed

lemma improvement_analyse_all:
  assumes "analyse_all ins gs = Inr ins'"
  shows "improvement_areas ins'
           = improvement_areas ins
             @ map fst (filter (\<lambda>(k, sc). 2 \<le> length sc
                                  \<and> (\<exists>en. trend_entry_of sc = Inr en
                                         \<and> fl_less (average_score en) (double_literal (1 / 2))))
                               gs)"
  using assms
proof (induction gs arbitrary: ins)
  case Nil
  then show ?case by simp
next
  case (Cons g gs)
  obtain k sc where g: "g = (k, sc)" by (cases g)
  from Cons.prems g obtain ins1 where
    step: "analyse_category ins (k, sc) = Inr ins1" and rest: "analyse_all ins1 gs = Inr ins'"
    by (auto split: sum.splits)
  note IH = Cons.IH [OF rest]
  show ?case
  proof (cases "2 \<le> length sc")
    case True
    from analyse_category_long [OF True step] obtain en where
      "trend_entry_of sc = Inr en"
      "improvement_areas ins1
         = improvement_areas ins
           @ (if fl_less (average_score en) (double_literal (1 / 2)) then [k] else [])"
      by blast
    then show ?thesis
      using IH True by (simp add: g)
  next
    case False
    with step have "ins1 = ins" by (simp add: analyse_category_short)
    then show ?thesis
      using IH False by (simp add: g)
  qed
qed

lemma entries_computed:
  assumes "analyse_all ins gs = Inr ins'" and "(k, sc) \<in> set gs" and "2 \<le> length sc"
  shows "\<exists>en. trend_entry_of sc = Inr en"
  using assms
proof (induction gs arbitrary: ins)
  case Nil
  then show ?case by simp
next
  case (Cons g gs)
  obtain k' sc' where g: "g = (k', sc')" by (cases g)
  from Cons.prems g obtain ins1 where
    step: "analyse_category ins (k', sc') = Inr ins1" and rest: "analyse_all ins1 gs = Inr ins'"
    by (auto split: sum.splits)
  show ?case
  proof (cases "(k, sc) = (k', sc')")
    case True
    with step Cons.prems(3) show ?thesis
      using analyse_category_long [of sc' ins k' ins1] by blast
  next
    case False
    with Cons.prems g have "(k, sc) \<in> set gs" by auto
    from Cons.IH [OF rest this Cons.prems(3)] show ?thesis .
  qed
qed


text \<open>When every score is a float, the loop raises nothing.\<close>

lemma py_sub_floats: "is_float a \<Longrightarrow> is_float b \<Longrightarrow> \<exists>d. py_sub a b = Inr d"
  by (cases a; cases b) (simp_all add: is_float_def py_sub_def)

lemma sum_from_floats: "list_all is_float vs \<Longrightarrow> \<exists>d. sum_from acc vs = Inr d"
proof (induction vs arbitrary: acc)
  case Nil
  then show ?case by simp
next
  case (Cons v vs)
  then show ?case by (cases v) (simp_all add: is_float_def)
qed

lemma py_sum_floats: "list_all is_float vs \<Longrightarrow> \<exists>d. py_sum vs = Inr d"
proof (cases vs)
  case Nil
  then show ?thesis by (simp add: py_sum_def)
next
  case (Cons v rest)
  assume "list_all is_float vs"
  with Cons show ?thesis
    using sum_from_floats [of rest] by (cases v) (simp_all add: is_float_def py_sum_def)
qed

lemma trend_entry_of_floats:
  assumes "list_all is_float sc" and "sc \<noteq> []"
  shows "\<exists>en. trend_entry_of sc = Inr en"
proof -
  from assms have "is_float (last sc)" and "is_float (hd sc)"
    by (auto simp add: list_all_iff)
  then obtain t where t: "score_trend sc = Inr t"
    unfolding score_trend_def using py_sub_floats by blast
  from assms(1) obtain s where "py_sum sc = Inr s"
    using py_sum_floats by blast
  then have "score_average sc = Inr (fl_div_pos s (of_nat (length sc)))"
    by (simp add: score_average_def)
  with t show ?thesis
    by (simp add: trend_entry_of_def)
qed

lemma analyse_category_floats:
  assumes "list_all is_float sc"
  shows "\<exists>ins'. analyse_category ins (k, sc) = Inr ins'"
proof (cases "2 \<le> length sc")
  case True
  then have "sc \<noteq> []" by auto
  from trend_entry_of_floats [OF assms this] obtain en where "trend_entry_of sc = Inr en" ..
  with True show ?thesis by (simp add: analyse_category_def Let_def)
next
  case False
  then show ?thesis by (simp add: analyse_category_def)
qed

lemma analyse_all_floats:
  assumes "\<forall>g \<in> set gs. list_all is_float (snd g)"
  shows "\<exists>ins'. analyse_all ins gs = Inr ins'"
  using assms
proof (induction gs arbitrary: ins)
  case Nil
  then show ?case by simp
next
  case (Cons g gs)
  obtain k sc where g: "g = (k, sc)" by (cases g)
  with Cons.prems have "list_all is_float sc" by simp
  from analyse_category_floats [OF this] obtain ins1 where
    "analyse_category ins (k, sc) = Inr ins1" ..
  moreover from Cons have "\<exists>ins'. analyse_all ins1 gs = Inr ins'" by simp
  ultimately show ?case by (simp add: g)
qed

lemma groups_of_floats:
  assumes "list_all is_float (map m_metric_value ms)"
  shows "\<forall>g \<in> set (group_by_category ms). list_all is_float (snd g)"
proof
  fix g assume member: "g \<in> set (group_by_category ms)"
  obtain k sc where g: "g = (k, sc)" by (cases g)
  with member have "map_of (group_by_category ms) k = Some sc"
    using distinct_group_by_category [of ms] by simp
  then have "sc = map m_metric_value (filter (\<lambda>m. m_category m = k) ms)"
    by (simp add: map_of_group_by_category split: if_splits)
  with assms show "list_all is_float (snd g)"
    by (simp add: g list_all_iff)
qed

text \<open>When every category is a text, the recommendations raise nothing.\<close>

lemma keys_group_step: "fst ` set (group_step acc m) = insert (m_category m) (fst ` set acc)"
  by (simp add: group_step_def keys_dict_set)

lemma keys_foldl_group:
  "fst ` set (foldl group_step acc ms) = fst ` set acc \<union> m_category ` set ms"
  by (induction ms arbitrary: acc) (auto simp add: keys_group_step)

lemma keys_group_by_category: "fst ` set (group_by_category ms) = m_category ` set ms"
  by (simp add: group_by_category_def keys_foldl_group)

lemma focus_recommendations_total:
  "None \<notin> set areas \<Longrightarrow> \<exists>advice. focus_recommendations areas = Inr advice"
proof (induction areas)
  case Nil
  then show ?case by simp
next
  case (Cons area areas)
  then obtain a advice where "area = Some a" and "focus_recommendations areas = Inr advice"
    by (cases area) auto
  then show ?case by (simp add: area_name_def)
qed

lemma strength_recommendation_total:
  "None \<notin> set strong \<Longrightarrow> \<exists>advice. strength_recommendation strong = Inr advice"
proof (cases strong)
  case Nil
  then show ?thesis by (simp add: strength_recommendation_def)
next
  case (Cons strongest rest)
  assume "None \<notin> set strong"
  with Cons obtain a where "strongest = Some a" by (cases strongest) auto
  with Cons show ?thesis by (simp add: strength_recommendation_def area_name_def)
qed

lemma recommendations_total:
  assumes "None \<notin> set (improvement_areas ins)" and "None \<notin> set (strong_areas ins)"
  shows "\<exists>advice. generate_learning_recommendations ins = Inr advice"
proof -
  from assms(1) have "None \<notin> set (take 3 (improvement_areas ins))"
    by (auto dest: in_set_takeD)
  from focus_recommendations_total [OF this] obtain focus where
    "focus_recommendations (take 3 (improvement_areas ins)) = Inr focus" ..
  moreover from strength_recommendation_total [OF assms(2)] obtain leverage where
    "strength_recommendation (strong_areas ins) = Inr leverage" ..
  ultimately show ?thesis
    by (simp add: generate_learning_recommendations_def Let_def)
qed

lemma insights_computed:
  assumes "list_all well_typed (category_score_metrics uid bank)"
  shows "\<exists>ins. get_learning_insights uid bank = Inr ins"
proof (cases "category_score_metrics uid bank = []")
  case True
  then show ?thesis by (simp add: get_learning_insights_def)
next
  case False
  let ?gs = "group_by_category (category_score_metrics uid bank)"
  let ?base = "\<lparr> insights_user_id = uid, total_sessions = 0, performance_trends = [],
          improvement_areas = [], strong_areas = [], learning_velocity = ''moderate'',
          recommendations = [] \<rparr>\<lparr>total_sessions :=
            length (filter (\<lambda>r. s_user_id r = uid \<and> s_status r = Some ''completed'')
                           (sessions bank))\<rparr>"
  from assms have floats: "list_all is_float (map m_metric_value (category_score_metrics uid bank))"
    and texts: "None \<notin> m_category ` set (category_score_metrics uid bank)"
    by (auto simp add: list_all_iff well_typed_def)
  from analyse_all_floats [OF groups_of_floats [OF floats]] obtain analysed where
    loop: "analyse_all ?base ?gs = Inr analysed"
    by blast
  from texts have keys: "None \<notin> fst ` set ?gs"
    by (simp add: keys_group_by_category)
  from strong_analyse_all [OF loop] keys have "None \<notin> set (strong_areas analysed)"
    by auto
  moreover from improvement_analyse_all [OF loop] keys
  have "None \<notin> set (improvement_areas analysed)"
    by auto
  ultimately obtain advice where "generate_learning_recommendations analysed = Inr advice"
    using recommendations_total by blast
  with False loop show ?thesis
    by (simp add: get_learning_insights_def Let_def)
qed

text \<open>The result, when there is one, comes from the loop over the groups.\<close>

lemma insights_from_loop:
  assumes "get_learning_insights uid bank = Inr ins"
  shows "\<exists>base analysed.
           performance_trends base = [] \<and> strong_areas base = [] \<and> improvement_areas base = []
         \<and> analyse_all base (group_by_category (category_score_metrics uid bank)) = Inr analysed
         \<and> performance_trends ins = performance_trends analysed
         \<and> strong_areas ins = strong_areas analysed
         \<and> improvement_areas ins = improvement_areas analysed"
proof (cases "category_score_metrics uid bank = []")
  case True
  with assms have "ins = \<lparr> insights_user_id = uid, total_sessions = 0, performance_trends = [],
          improvement_areas = [], strong_areas = [], learning_velocity = ''moderate'',
          recommendations = [] \<rparr>"
    by (simp add: get_learning_insights_def)
  moreover from True have "group_by_category (category_score_metrics uid bank) = []"
    by (simp add: group_by_category_def)
  ultimately show ?thesis
    by (intro exI [of _ ins]) simp
next
  case False
  let ?base = "\<lparr> insights_user_id = uid, total_sessions = 0, performance_trends = [],
          improvement_areas = [], strong_areas = [], learning_velocity = ''moderate'',
          recommendations = [] \<rparr>\<lparr>total_sessions :=
            length (filter (\<lambda>r. s_user_id r = uid \<and> s_status r = Some ''completed'')
                           (sessions bank))\<rparr>"
  from assms False obtain analysed advice where
    loop: "analyse_all ?base (group_by_category (category_score_metrics uid bank)) = Inr analysed"
    and ins: "ins = analysed\<lparr>recommendations := advice\<rparr>"
    by (auto simp add: get_learning_insights_def Let_def split: sum.splits)
  have "performance_trends ?base = [] \<and> strong_areas ?base = [] \<and> improvement_areas ?base = []
      \<and> analyse_all ?base (group_by_category (category_score_metrics uid bank)) = Inr analysed
      \<and> performance_trends ins = performance_trends analysed
      \<and> strong_areas ins = strong_areas analysed
      \<and> improvement_areas ins = improvement_areas analysed"
    using loop ins by simp
  then show ?thesis by blast
qed

lemma entry_of_recorded:
  assumes "get_learning_insights uid bank = Inr ins"
    and "2 \<le> length (recorded_scores uid bank c)"
  shows "\<exists>en. trend_entry_of (recorded_scores uid bank c) = Inr en"
proof -
  let ?gs = "group_by_category (category_score_metrics uid bank)"
  from insights_from_loop [OF assms(1)] obtain base analysed where
    loop: "analyse_all base ?gs = Inr analysed"
    by blast
  from assms(2) have "recorded_scores uid bank c \<noteq> []" by auto
  then have "map_of ?gs c = Some (recorded_scores uid bank c)"
    by (simp add: map_of_groups_recorded)
  then have "(c, recorded_scores uid bank c) \<in> set ?gs"
    by (rule map_of_SomeD)
  from entries_computed [OF loop this assms(2)] show ?thesis .
qed

lemma trends_get_learning_insights:
  assumes "get_learning_insights uid bank = Inr ins"
  shows "map_of (performance_trends ins) c
           = (if 2 \<le> length (recorded_scores uid bank c)
              then (case trend_entry_of (recorded_scores uid bank c) of
                      Inl e \<Rightarrow> None | Inr en \<Rightarrow> Some en)
              else None)"
proof -
  let ?gs = "group_by_category (category_score_metrics uid bank)"
  from insights_from_loop [OF assms] obtain base analysed where
    base: "performance_trends base = []"
    and loop: "analyse_all base ?gs = Inr analysed"
    and same: "performance_trends ins = performance_trends analysed"
    by blast
  from trends_analyse_all [OF loop distinct_group_by_category, of c] base same
  show ?thesis
    by (auto simp add: map_of_groups_recorded)
qed






text \<open>
  The arithmetic is that of the doubles: 0.4 - 0.3 is above 0.1 and 0.1 - 0.0 is not; the
  average of 0.7, 0.7, 0.7 is below 0.7, that of 0.6, 0.7, 0.2 is below 0.5, and that of
  0.7, 0.7 is 0.7. A score that is not a float makes a category with two scores raise and
  is harmless in a category with one; a category that is \<open>NULL\<close> raises when a
  recommendation names it.
\<close>

lemma rounding_example_improving:
  "insight_summary (get_learning_insights ''u'' (sample_scores_bank [3 / 10, 4 / 10]))
     = Inr ([(Some ''communication'', ''improving'')], [], [Some ''communication''])"
  by code_simp

lemma rounding_example_stable:
  "insight_summary (get_learning_insights ''u'' (sample_scores_bank [0, 1 / 10]))
     = Inr ([(Some ''communication'', ''stable'')], [], [Some ''communication''])"
  by code_simp

lemma rounding_example_not_strong:
  "insight_summary (get_learning_insights ''u'' (sample_scores_bank [7 / 10, 7 / 10, 7 / 10]))
     = Inr ([(Some ''communication'', ''stable'')], [], [])"
  by code_simp

lemma rounding_example_improvement:
  "insight_summary (get_learning_insights ''u'' (sample_scores_bank [6 / 10, 7 / 10, 2 / 10]))
     = Inr ([(Some ''communication'', ''declining'')], [], [Some ''communication''])"
  by code_simp

lemma rounding_example_strong:
  "insight_summary (get_learning_insights ''u'' (sample_scores_bank [7 / 10, 7 / 10]))
     = Inr ([(Some ''communication'', ''stable'')], [Some ''communication''], [])"
  by code_simp

lemma null_score_raises:
  "insight_summary (get_learning_insights ''u''
      (empty_bank\<lparr>performance_metrics :=
         [(sample_metric 1 ''2025-01-01'' ''communication'' (1 / 2))\<lparr>m_metric_value := Null\<rparr>,
          sample_metric 2 ''2025-01-02'' ''communication'' (1 / 2)]\<rparr>))
     = Inl (''unsupported operand type(s) for -: '' @ [CHR 0x27] @ ''float'' @ [CHR 0x27]
            @ '' and '' @ [CHR 0x27] @ ''NoneType'' @ [CHR 0x27])"
  by code_simp

lemma single_null_score_harmless:
  "insight_summary (get_learning_insights ''u''
      (empty_bank\<lparr>performance_metrics :=
         [(sample_metric 1 ''2025-01-01'' ''communication'' (1 / 2))\<lparr>m_metric_value := Null\<rparr>]\<rparr>))
     = Inr ([], [], [])"
  by code_simp

lemma null_category_raises:
  "insight_summary (get_learning_insights ''u''
      (empty_bank\<lparr>performance_metrics :=
         [(sample_metric 1 ''2025-01-01'' ''communication'' (1 / 5))\<lparr>m_category := None\<rparr>,
          (sample_metric 2 ''2025-01-02'' ''communication'' (1 / 5))\<lparr>m_category := None\<rparr>]\<rparr>))
     = Inl ([CHR 0x27] @ ''NoneType'' @ [CHR 0x27] @ '' object has no attribute ''
            @ [CHR 0x27] @ ''replace'' @ [CHR 0x27])"
  by code_simp

text \<open>
  Claim C6. When every category score of the user is a float recorded under a text
  category, the computation returns insights. Whenever it returns insights, they hold a
  trend entry for a category exactly when the category has at least two recorded scores,
  and the entry's label is \<open>improving\<close> iff the last score minus the first (the float
  subtraction \<open>scores[-1] - scores[0]\<close>) is above the float \<open>0.1\<close>, \<open>declining\<close>
  iff it is below \<open>-0.1\<close>, and \<open>stable\<close> otherwise.
\<close>

theorem trend_classification:
  "(list_all well_typed (category_score_metrics uid bank)
      \<longrightarrow> (\<exists>ins. get_learning_insights uid bank = Inr ins))
   \<and> (\<forall>ins. get_learning_insights uid bank = Inr ins \<longrightarrow>
         (map_of (performance_trends ins) c \<noteq> None
            \<longleftrightarrow> 2 \<le> length (recorded_scores uid bank c))
       \<and> (\<forall>e. map_of (performance_trends ins) c = Some e \<longrightarrow>
             (\<exists>d. score_trend (recorded_scores uid bank c) = Inr d
                \<and> (trend e = ''improving'' \<longleftrightarrow> fl_less (double_literal (1 / 10)) d)
                \<and> (trend e = ''declining'' \<longleftrightarrow> fl_less d (fl_neg (double_literal (1 / 10))))
                \<and> (trend e = ''stable''
                     \<longleftrightarrow> \<not> fl_less (double_literal (1 / 10)) d
                         \<and> \<not> fl_less d (fl_neg (double_literal (1 / 10)))))))"
proof (intro conjI impI allI)
  assume "list_all well_typed (category_score_metrics uid bank)"
  then show "\<exists>ins. get_learning_insights uid bank = Inr ins"
    by (rule insights_computed)
next
  fix ins assume ok: "get_learning_insights uid bank = Inr ins"
  show "map_of (performance_trends ins) c \<noteq> None
          \<longleftrightarrow> 2 \<le> length (recorded_scores uid bank c)"
    using entry_of_recorded [OF ok, of c]
    by (auto simp add: trends_get_learning_insights [OF ok])
next
  fix ins e
  assume ok: "get_learning_insights uid bank = Inr ins"
    and e: "map_of (performance_trends ins) c = Some e"
  from e have "trend_entry_of (recorded_scores uid bank c) = Inr e"
    by (auto simp add: trends_get_learning_insights [OF ok] split: if_splits sum.splits)
  then obtain d where d: "score_trend (recorded_scores uid bank c) = Inr d"
    and label: "trend e = trend_label d"
    by (auto simp add: trend_entry_of_Inr)
  from d label trend_label_cases [of d]
  show "\<exists>d. score_trend (recorded_scores uid bank c) = Inr d
          \<and> (trend e = ''improving'' \<longleftrightarrow> fl_less (double_literal (1 / 10)) d)
          \<and> (trend e = ''declining'' \<longleftrightarrow> fl_less d (fl_neg (double_literal (1 / 10))))
          \<and> (trend e = ''stable''
               \<longleftrightarrow> \<not> fl_less (double_literal (1 / 10)) d
                   \<and> \<not> fl_less d (fl_neg (double_literal (1 / 10))))"
    by simp
qed

text \<open>The two examples of the claim: scores 0.4, 0.4, 0.6 are labelled \<open>improving\<close>, and
  0.6, 0.6, 0.55 are labelled \<open>stable\<close>.\<close>

theorem trend_classification_witness:
  "(\<exists>ins e. get_learning_insights ''u'' (sample_scores_bank [4 / 10, 4 / 10, 6 / 10]) = Inr ins
           \<and> map_of (performance_trends ins) (Some ''communication'') = Some e
           \<and> trend e = ''improving'')
   \<and> (\<exists>ins e. get_learning_insights ''u'' (sample_scores_bank [6 / 10, 6 / 10, 55 / 100])
                 = Inr ins
             \<and> map_of (performance_trends ins) (Some ''communication'') = Some e
             \<and> trend e = ''stable'')"
proof -
  let ?up = "sample_scores_bank [4 / 10, 4 / 10, 6 / 10]"
  let ?flat = "sample_scores_bank [6 / 10, 6 / 10, 55 / 100]"
  have up_floats: "list_all well_typed (category_score_metrics ''u'' ?up)"
    by code_simp
  have up_length: "length (recorded_scores ''u'' ?up (Some ''communication'')) = 3"
    by code_simp
  have up_trend: "case score_trend (recorded_scores ''u'' ?up (Some ''communication'')) of
                    Inl e \<Rightarrow> False | Inr d \<Rightarrow> fl_less (double_literal (1 / 10)) d"
    by code_simp
  have flat_floats: "list_all well_typed (category_score_metrics ''u'' ?flat)"
    by code_simp
  have flat_length: "length (recorded_scores ''u'' ?flat (Some ''communication'')) = 3"
    by code_simp
  have flat_trend: "case score_trend (recorded_scores ''u'' ?flat (Some ''communication'')) of
                      Inl e \<Rightarrow> False
                    | Inr d \<Rightarrow> \<not> fl_less (double_literal (1 / 10)) d
                              \<and> \<not> fl_less d (fl_neg (double_literal (1 / 10)))"
    by code_simp
  from trend_classification [of "''u''" ?up "Some ''communication''"] up_floats up_length up_trend
  have first: "\<exists>ins e. get_learning_insights ''u'' ?up = Inr ins
                 \<and> map_of (performance_trends ins) (Some ''communication'') = Some e
                 \<and> trend e = ''improving''"
    by (auto split: sum.splits)
  from trend_classification [of "''u''" ?flat "Some ''communication''"]
    flat_floats flat_length flat_trend
  have second: "\<exists>ins e. get_learning_insights ''u'' ?flat = Inr ins
                 \<and> map_of (performance_trends ins) (Some ''communication'') = Some e
                 \<and> trend e = ''stable''"
    by (auto split: sum.splits)
  from first second show ?thesis by blast
qed




section \<open>Properties of the session lifecycle\<close>

text \<open>
  Claim C8. Finalizing an id that is not active returns the empty result and leaves the
  manager (active sessions, history and memory bank) as it was. Finalizing an active id
  returns the session stamped \<open>completed\<close> with its completion time, removes the id from
  the active sessions and appends the stamped session to the history.
\<close>

theorem finalize_contract:
  "(active_sessions mgr sid = None \<longrightarrow> finalize_session now sid mgr = (None, mgr))
   \<and> (\<forall>s. active_sessions mgr sid = Some s \<longrightarrow>
         fst (finalize_session now sid mgr)
           = Some (s\<lparr>status := ''completed'', completed_at := Some (isoformat now)\<rparr>)
         \<and> active_sessions (snd (finalize_session now sid mgr))
             = (active_sessions mgr)(sid := None)
         \<and> session_history (snd (finalize_session now sid mgr))
             = session_history mgr
               @ [s\<lparr>status := ''completed'', completed_at := Some (isoformat now)\<rparr>])"
  by (simp add: finalize_session_def Let_def split: prod.splits)

theorem finalize_contract_witness:
  "finalize_session sample_clock ''atic_unknown'' sample_manager = (None, sample_manager)
   \<and> active_sessions (snd (finalize_session sample_clock sample_session_id sample_manager))
        sample_session_id = None
   \<and> map session_id
        (session_history (snd (finalize_session sample_clock sample_session_id sample_manager)))
       = [sample_session_id]
   \<and> map status
        (session_history (snd (finalize_session sample_clock sample_session_id sample_manager)))
       = [''completed'']
   \<and> map completed_at
        (session_history (snd (finalize_session sample_clock sample_session_id sample_manager)))
       = [Some (isoformat sample_clock)]"
proof -
  have unknown: "active_sessions sample_manager ''atic_unknown'' = None"
    by code_simp
  have known: "map_option session_id (active_sessions sample_manager sample_session_id)
                 = Some sample_session_id"
    by code_simp
  have history: "session_history sample_manager = []"
    by code_simp
  from known obtain s where
    s: "active_sessions sample_manager sample_session_id = Some s"
       "session_id s = sample_session_id"
    by auto
  from finalize_contract [of sample_manager "''atic_unknown''" sample_clock] unknown
  have first: "finalize_session sample_clock ''atic_unknown'' sample_manager
                 = (None, sample_manager)"
    by simp
  from finalize_contract [of sample_manager sample_session_id sample_clock] s history first
  show ?thesis by simp
qed

text \<open>
  Claim C9. If step 1 raises, or step 1 returns and step 2 raises, initialization still
  returns the session id; the session registered under that id has status \<open>failed\<close>,
  carries the exception's message and whatever step 1 had produced; the history and the
  memory bank are untouched.
\<close>

theorem initialization_fails_softly:
  assumes "step1 = Inl e \<or> (\<exists>x. step1 = Inr x \<and> step2 = Inl e)"
  shows "fst (initialize_session now uuid4 step1 step2 mgr) = generate_session_id now uuid4
       \<and> (\<exists>s. active_sessions (snd (initialize_session now uuid4 step1 step2 mgr))
                 (generate_session_id now uuid4) = Some s
              \<and> session_id s = generate_session_id now uuid4
              \<and> status s = ''failed''
              \<and> error s = Some (message e)
              \<and> experience (user_profile s)
                  = (case step1 of Inl _ \<Rightarrow> None | Inr x \<Rightarrow> Some x))
       \<and> session_history (snd (initialize_session now uuid4 step1 step2 mgr))
           = session_history mgr
       \<and> memory_bank (snd (initialize_session now uuid4 step1 step2 mgr)) = memory_bank mgr"
  using assms
  by (auto simp add: initialize_session_def Let_def fail_session_def initial_session_data_def)

theorem initialization_fails_softly_witness:
  "fst (initialize_session sample_clock sample_uuid (Inl (Exception ''EOF when reading a line''))
          (Inr (sample_job ''hello'')) (new_session_manager empty_bank))
     = sample_session_id
   \<and> map_option status
        (active_sessions
           (snd (initialize_session sample_clock sample_uuid
                   (Inl (Exception ''EOF when reading a line''))
                   (Inr (sample_job ''hello'')) (new_session_manager empty_bank)))
           sample_session_id)
       = Some ''failed''
   \<and> map_option error
        (active_sessions
           (snd (initialize_session sample_clock sample_uuid (Inr (sample_experience 4))
                   (Inl (Exception ''EOF when reading a line''))
                   (new_session_manager empty_bank)))
           sample_session_id)
       = Some (Some ''EOF when reading a line'')
   \<and> map_option (\<lambda>s. experience (user_profile s))
        (active_sessions
           (snd (initialize_session sample_clock sample_uuid (Inr (sample_experience 4))
                   (Inl (Exception ''EOF when reading a line''))
                   (new_session_manager empty_bank)))
           sample_session_id)
       = Some (Some (sample_experience 4))"
proof -
  let ?e = "Exception ''EOF when reading a line''"
  have early: "(Inl ?e :: py_exception + experience_data) = Inl ?e
               \<or> (\<exists>x. (Inl ?e :: py_exception + experience_data) = Inr x
                       \<and> (Inr (sample_job ''hello'') :: py_exception + job_data) = Inl ?e)"
    by simp
  have late: "(Inr (sample_experience 4) :: py_exception + experience_data) = Inl ?e
              \<or> (\<exists>x. (Inr (sample_experience 4) :: py_exception + experience_data) = Inr x
                      \<and> (Inl ?e :: py_exception + job_data) = Inl ?e)"
    by simp
  from initialization_fails_softly [OF early, of sample_clock sample_uuid
         "new_session_manager empty_bank"]
       initialization_fails_softly [OF late, of sample_clock sample_uuid
         "new_session_manager empty_bank"]
  show ?thesis
    by (auto simp add: sample_session_id_def)
qed

text \<open>
  Claim C10. After finalizing an active session id, the id is no longer addressable:
  \<open>get_session_data\<close> finds nothing, and \<open>record_agent_interaction\<close> and
  \<open>update_session_status\<close> return \<open>False\<close> and change nothing. The id is not a key of the
  active sessions any more, while the finalized session is in the history.
\<close>

theorem finalized_not_addressable:
  assumes "active_sessions mgr sid = Some s"
  shows "get_session_data (snd (finalize_session now sid mgr)) sid = None
       \<and> record_agent_interaction now' sid agent_name interaction_data
           (snd (finalize_session now sid mgr))
         = (False, snd (finalize_session now sid mgr))
       \<and> update_session_status now' sid new_status additional_data
           (snd (finalize_session now sid mgr))
         = (False, snd (finalize_session now sid mgr))
       \<and> sid \<notin> dom (active_sessions (snd (finalize_session now sid mgr)))
       \<and> s\<lparr>status := ''completed'', completed_at := Some (isoformat now)\<rparr>
           \<in> set (session_history (snd (finalize_session now sid mgr)))"
  using assms
  by (simp add: finalize_session_def Let_def get_session_data_def record_agent_interaction_def
        update_session_status_def split: prod.splits)

theorem finalized_not_addressable_witness:
  "get_session_data (snd (finalize_session sample_clock sample_session_id sample_manager))
     sample_session_id = None
   \<and> fst (record_agent_interaction sample_clock sample_session_id ''interviewer''
            [(''type'', ''question'')]
            (snd (finalize_session sample_clock sample_session_id sample_manager))) = False
   \<and> fst (update_session_status sample_clock sample_session_id ''paused'' None
            (snd (finalize_session sample_clock sample_session_id sample_manager))) = False"
proof -
  have known: "map_option session_id (active_sessions sample_manager sample_session_id)
                 = Some sample_session_id"
    by code_simp
  then obtain s where s: "active_sessions sample_manager sample_session_id = Some s"
    by auto
  from finalized_not_addressable [OF s, of sample_clock sample_clock "''interviewer''"
         "[(''type'', ''question'')]" "''paused''" None]
  show ?thesis by simp
qed

text \<open>
  When every active session is stored under its own id and no session of the history is
  active, finalizing keeps it so: the history and the active sessions stay apart.
\<close>

lemma finalize_keeps_history_apart:
  assumes keyed: "\<forall>k s. active_sessions mgr k = Some s \<longrightarrow> session_id s = k"
    and apart: "\<forall>h \<in> set (session_history mgr). active_sessions mgr (session_id h) = None"
  shows "\<forall>h \<in> set (session_history (snd (finalize_session now sid mgr))).
           active_sessions (snd (finalize_session now sid mgr)) (session_id h) = None"
proof (cases "active_sessions mgr sid")
  case None
  with apart show ?thesis by (simp add: finalize_session_def)
next
  case (Some s)
  with keyed have "session_id s = sid" by simp
  with Some apart show ?thesis
    by (auto simp add: finalize_session_def Let_def split: prod.splits)
qed

end
